theory Spec2Isabelle
  imports Main
begin

section \<open>The SageMaker endpoint stack (sagemaker-endpoint/stack.py)\<close>

text \<open>
  The module builds one CDK stack in \<^verbatim>\<open>DeployEndpointStack.__init__\<close>: a
  straight-line sequence of construct creations. An exception leaves the constructor at
  the import of a supplied role (line 128), in the package resolution (lines 133 and
  135) and at the production variant (line 171). The embedding threads the stack under
  construction through the same sequence of calls. An exception does not undo what was
  built, so a failing run returns the error together with the stack as it is at the
  raise. The other calls into the CDK library are taken to accept their arguments.
\<close>

subsection \<open>Python values\<close>

text \<open>
  \<^verbatim>\<open>Optional[str]\<close> parameters are tested with \<^verbatim>\<open>if x:\<close> and
  \<^verbatim>\<open>if not x:\<close>. Both \<^verbatim>\<open>None\<close> and the empty string are false.
\<close>

definition truthy :: "string option \<Rightarrow> bool" where
  "truthy x = (case x of None \<Rightarrow> False | Some s \<Rightarrow> s \<noteq> [])"

datatype error =
    ValueError string
  | TypeError_multiple_values string
  | Propagated string

subsection \<open>The clock and \<^verbatim>\<open>get_timestamp\<close>\<close>

text \<open>
  A \<^verbatim>\<open>datetime\<close> object: the calendar fields and the optional time zone label.
  One reading of the host clock gives the wall-clock time in the host's local zone and
  the wall-clock time in UTC at the same instant. \<^verbatim>\<open>datetime.now()\<close> without an
  argument returns the local fields with no zone attached;
  \<^verbatim>\<open>.replace(tzinfo=...)\<close> sets the label and converts nothing.
\<close>

datatype tzinfo = Timezone_utc

record datetime =
  year :: nat
  month :: nat
  day :: nat
  hour :: nat
  minute :: nat
  second :: nat
  tzinfo :: "tzinfo option"

record reading =
  local_fields :: datetime
  utc_fields :: datetime

definition datetime_now :: "reading \<Rightarrow> datetime" where
  "datetime_now r = (local_fields r)\<lparr>tzinfo := None\<rparr>"

definition replace_tzinfo :: "datetime \<Rightarrow> tzinfo \<Rightarrow> datetime" where
  "replace_tzinfo d tz = d\<lparr>tzinfo := Some tz\<rparr>"

definition digit :: "nat \<Rightarrow> char" where
  "digit n = ''0123456789'' ! (n mod 10)"

definition digits2 :: "nat \<Rightarrow> string" where
  "digits2 n = [digit (n div 10), digit n]"

definition digits4 :: "nat \<Rightarrow> string" where
  "digits4 n = [digit (n div 1000), digit (n div 100), digit (n div 10), digit n]"

text \<open>
  \<^verbatim>\<open>strftime("%Y%m%d%H%M%S")\<close>: zero-padded decimal fields, four digits for the
  year (a \<^verbatim>\<open>datetime\<close> year is at most 9999) and two for each of the others.
\<close>

definition strftime :: "datetime \<Rightarrow> string" where
  "strftime d =
     digits4 (year d) @ digits2 (month d) @ digits2 (day d) @
     digits2 (hour d) @ digits2 (minute d) @ digits2 (second d)"

definition get_timestamp :: "reading \<Rightarrow> string" where
  "get_timestamp r =
     (let now = replace_tzinfo (datetime_now r) Timezone_utc
      in strftime now)"

text \<open>What the clock shows in UTC, formatted the same way.\<close>

definition utc_timestamp :: "reading \<Rightarrow> string" where
  "utc_timestamp r = strftime (utc_fields r)"

definition civil :: "nat \<Rightarrow> nat \<Rightarrow> nat \<Rightarrow> nat \<Rightarrow> nat \<Rightarrow> nat \<Rightarrow> datetime" where
  "civil y mo d h mi s =
     \<lparr>year = y, month = mo, day = d, hour = h, minute = mi, second = s, tzinfo = None\<rparr>"

text \<open>A host one hour east of Greenwich, read at 2024-03-01 00:00:00 UTC.\<close>

definition reading_cet :: reading where
  "reading_cet =
     \<lparr>local_fields = civil 2024 3 1 1 0 0,
      utc_fields = (civil 2024 3 1 0 0 0)\<lparr>tzinfo := Some Timezone_utc\<rparr>\<rparr>"

subsection \<open>Constructs\<close>

text \<open>
  A value handed to a construct is either a plain string or a token: the attribute of
  another construct, resolved only by the provisioning engine. A token makes the holder
  depend on the construct it names.
\<close>

datatype ref = Lit string | Tok string string

datatype effect = ALLOW | DENY

datatype policy_statement =
  PolicyStatement (actions: "string list") (resources: "string list") (effect: effect)

datatype role_origin = ServicePrincipal string | FromRoleArn string

datatype grant = GrantRead string | GrantEncryptDecrypt string

text \<open>
  \<^verbatim>\<open>ProductionVariantProperty(model_name=model_name, **endpoint_config_prod_variant)\<close>:
  the explicit keyword and the caller's dictionary.
\<close>

datatype 'a production_variant = ProductionVariant string "string \<rightharpoonup> 'a"

datatype 'a construct =
    Vpc string string
  | SecurityGroup string bool "(string \<times> string) list"
  | Role role_origin "policy_statement list" "grant list"
  | Bucket string
  | CfnModel ref string "string list" "ref list" "string list" "string list"
  | Key string bool "grant list"
  | CfnEndpointConfig string ref "'a production_variant list" "string list"
  | CfnEndpoint ref "string list"

text \<open>
  The fields, in order: \<open>Vpc\<close> the looked-up id and its address range;
  \<open>SecurityGroup\<close> the id of its VPC construct, \<^verbatim>\<open>allow_all_outbound\<close> and the
  ingress rules (peer, port); \<open>Role\<close> where it comes from, the statements of its
  policy and the grants made to it; \<open>Bucket\<close> the ARN it was imported from;
  \<open>CfnModel\<close> \<^verbatim>\<open>execution_role_arn\<close>, \<^verbatim>\<open>model_name\<close>, the
  \<^verbatim>\<open>model_package_name\<close> of each container, the security group ids, the
  subnets and the explicit dependencies; \<open>Key\<close> description,
  \<^verbatim>\<open>enable_key_rotation\<close> and the grants on it; \<open>CfnEndpointConfig\<close>
  \<^verbatim>\<open>endpoint_config_name\<close>, \<^verbatim>\<open>kms_key_id\<close>, the production variants and
  the explicit dependencies; \<open>CfnEndpoint\<close> \<^verbatim>\<open>endpoint_config_name\<close> and the
  explicit dependencies.
\<close>

datatype lookup = VpcLookup string | ApprovedPackageLookup string string

datatype suppression = NagPackSuppression string string

record 'a stack =
  tags :: "(string \<times> string) list"
  constructs :: "(string \<times> 'a construct) list"
  lookups :: "lookup list"
  clock_reads :: nat
  nag_suppressions :: "(string \<times> bool \<times> suppression list) list"
  model_package_arn_attr :: "string option"
  endpoint_url :: "ref list"

text \<open>
  The parameters of \<^verbatim>\<open>__init__\<close>. What the stack takes from its surroundings is
  the environment: region and account of the stack, the VPC lookup, the check that
  \<^verbatim>\<open>iam.Role.from_role_arn\<close> makes of the ARN it is given (library code; \<open>Inl\<close>
  is the exception it raises on an ARN it cannot parse), the repository's
  \<^verbatim>\<open>get_approved_package\<close> script (not among the sources; \<open>Inl\<close> is an
  exception it raises) and the host clock, one reading for each call of
  \<^verbatim>\<open>datetime.now()\<close> in the order of the calls.
\<close>

record 'a request =
  id' :: string
  sagemaker_project_id :: "string option"
  sagemaker_project_name :: "string option"
  model_package_arn :: "string option"
  model_package_group_name :: "string option"
  model_execution_role_arn :: "string option"
  vpc_id :: string
  subnet_ids :: "string list"
  model_artifacts_bucket_arn :: "string option"
  ecr_repo_arn :: "string option"
  endpoint_config_prod_variant :: "string \<rightharpoonup> 'a"

record environment =
  region :: string
  account :: string
  vpc_cidr_block :: "string \<Rightarrow> string"
  from_role_arn :: "string \<Rightarrow> string + unit"
  get_approved_package :: "string \<Rightarrow> string \<Rightarrow> string + string"
  now :: "nat \<Rightarrow> reading"

subsection \<open>Operations on the stack under construction\<close>

definition new_stack :: "'a stack" where
  "new_stack =
     \<lparr>tags = [], constructs = [], lookups = [], clock_reads = 0, nag_suppressions = [],
      model_package_arn_attr = None, endpoint_url = []\<rparr>"

definition add_tag :: "string \<Rightarrow> string \<Rightarrow> 'a stack \<Rightarrow> 'a stack" where
  "add_tag k v st = st\<lparr>tags := tags st @ [(k, v)]\<rparr>"

definition add_construct :: "string \<Rightarrow> 'a construct \<Rightarrow> 'a stack \<Rightarrow> 'a stack" where
  "add_construct cid c st = st\<lparr>constructs := constructs st @ [(cid, c)]\<rparr>"

fun update_construct ::
  "string \<Rightarrow> ('a construct \<Rightarrow> 'a construct) \<Rightarrow> (string \<times> 'a construct) list \<Rightarrow>
   (string \<times> 'a construct) list" where
  "update_construct cid f [] = []"
| "update_construct cid f ((k, c) # cs) =
     (if k = cid then (k, f c) # cs else (k, c) # update_construct cid f cs)"

definition mutate :: "string \<Rightarrow> ('a construct \<Rightarrow> 'a construct) \<Rightarrow> 'a stack \<Rightarrow> 'a stack" where
  "mutate cid f st = st\<lparr>constructs := update_construct cid f (constructs st)\<rparr>"

fun add_ingress_rule :: "string \<Rightarrow> string \<Rightarrow> 'a construct \<Rightarrow> 'a construct" where
  "add_ingress_rule peer port (SecurityGroup v out rules) =
     SecurityGroup v out (rules @ [(peer, port)])"
| "add_ingress_rule peer port c = c"

fun add_to_policy :: "policy_statement \<Rightarrow> 'a construct \<Rightarrow> 'a construct" where
  "add_to_policy s (Role origin policy grants) = Role origin (policy @ [s]) grants"
| "add_to_policy s c = c"

fun grant_read :: "string \<Rightarrow> 'a construct \<Rightarrow> 'a construct" where
  "grant_read bucket (Role origin policy grants) =
     Role origin policy (grants @ [GrantRead bucket])"
| "grant_read bucket c = c"

fun grant_encrypt_decrypt :: "string \<Rightarrow> 'a construct \<Rightarrow> 'a construct" where
  "grant_encrypt_decrypt grantee (Key d rot grants) =
     Key d rot (grants @ [GrantEncryptDecrypt grantee])"
| "grant_encrypt_decrypt grantee c = c"

fun add_dependency :: "string \<Rightarrow> 'a construct \<Rightarrow> 'a construct" where
  "add_dependency target (CfnModel r n cs sgs subs deps) = CfnModel r n cs sgs subs (deps @ [target])"
| "add_dependency target (CfnEndpointConfig n k vs deps) = CfnEndpointConfig n k vs (deps @ [target])"
| "add_dependency target (CfnEndpoint n deps) = CfnEndpoint n (deps @ [target])"
| "add_dependency target c = c"

text \<open>One call of \<^verbatim>\<open>get_timestamp()\<close>: the next reading of the clock.\<close>

definition read_timestamp :: "environment \<Rightarrow> 'a stack \<Rightarrow> string \<times> 'a stack" where
  "read_timestamp e st =
     (get_timestamp (now e (clock_reads st)), st\<lparr>clock_reads := Suc (clock_reads st)\<rparr>)"

subsection \<open>The constructor, step by step\<close>

text \<open>Lines 43 to 46: the two optional tags.\<close>

definition add_project_tags :: "'a request \<Rightarrow> 'a stack \<Rightarrow> 'a stack" where
  "add_project_tags r st =
     (let st1 = (if truthy (sagemaker_project_id r)
                 then add_tag ''sagemaker:project-id'' (the (sagemaker_project_id r)) st
                 else st)
      in if truthy (sagemaker_project_name r)
         then add_tag ''sagemaker:project-name'' (the (sagemaker_project_name r)) st1
         else st1)"

text \<open>Lines 49 to 55: the VPC lookup, the security group and its ingress rule.\<close>

definition create_network :: "environment \<Rightarrow> 'a request \<Rightarrow> 'a stack \<Rightarrow> 'a stack" where
  "create_network e r st =
     (let cidr = vpc_cidr_block e (vpc_id r);
          st1 = add_construct ''VPC'' (Vpc (vpc_id r) cidr)
                  (st\<lparr>lookups := lookups st @ [VpcLookup (vpc_id r)]\<rparr>);
          st2 = add_construct ''Security Group'' (SecurityGroup ''VPC'' True []) st1
      in mutate ''Security Group'' (add_ingress_rule cidr ''all_tcp'') st2)"

definition baseline_statement :: policy_statement where
  "baseline_statement =
     PolicyStatement
       [''cloudwatch:PutMetricData'', ''logs:CreateLogStream'', ''logs:PutLogEvents'',
        ''logs:CreateLogGroup'', ''logs:DescribeLogStreams'', ''ecr:GetAuthorizationToken'',
        ''ec2:CreateNetworkInterface'', ''ec2:CreateNetworkInterfacePermission'',
        ''ec2:DeleteNetworkInterface'', ''ec2:DeleteNetworkInterfacePermission'',
        ''ec2:DescribeNetworkInterfaces'', ''ec2:DescribeVpcs'', ''ec2:DescribeDhcpOptions'',
        ''ec2:DescribeSubnets'', ''ec2:DescribeSecurityGroups'']
       [''*''] ALLOW"

definition kms_statement :: "environment \<Rightarrow> policy_statement" where
  "kms_statement e =
     PolicyStatement
       [''kms:Encrypt'', ''kms:ReEncrypt*'', ''kms:GenerateDataKey*'', ''kms:Decrypt'',
        ''kms:DescribeKey'']
       [''arn:aws:kms:'' @ region e @ '':'' @ account e @ '':key/*''] ALLOW"

definition unscoped_bucket_statement :: policy_statement where
  "unscoped_bucket_statement =
     PolicyStatement [''s3:ListBucket'', ''s3:GetObject''] [''*''] ALLOW"

definition ecr_statement :: "string \<Rightarrow> policy_statement" where
  "ecr_statement repo =
     PolicyStatement
       [''ecr:BatchCheckLayerAvailability'', ''ecr:GetDownloadUrlForLayer'',
        ''ecr:BatchGetImage'']
       [repo] ALLOW"

text \<open>Lines 60 to 125, the branch that creates the role.\<close>

definition create_role :: "environment \<Rightarrow> 'a request \<Rightarrow> 'a stack \<Rightarrow> 'a stack" where
  "create_role e r st =
     (let st1 = add_construct ''Model Execution Role''
                  (Role (ServicePrincipal ''sagemaker.amazonaws.com'') [] []) st;
          st2 = mutate ''Model Execution Role'' (add_to_policy baseline_statement) st1;
          st3 = mutate ''Model Execution Role'' (add_to_policy (kms_statement e)) st2;
          st4 = (if truthy (model_artifacts_bucket_arn r)
                 then mutate ''Model Execution Role''
                        (grant_read (the (model_artifacts_bucket_arn r)))
                        (add_construct ''Model Bucket''
                           (Bucket (the (model_artifacts_bucket_arn r))) st3)
                 else mutate ''Model Execution Role''
                        (add_to_policy unscoped_bucket_statement) st3);
          ecr_repo_arn = (if truthy (ecr_repo_arn r) then the (ecr_repo_arn r) else ''*'')
      in mutate ''Model Execution Role'' (add_to_policy (ecr_statement ecr_repo_arn)) st4)"

text \<open>
  Lines 57 to 128. The result is \<^verbatim>\<open>self.model_execution_role.role_arn\<close> too. The
  import of line 128 raises when the library rejects the ARN; nothing is added to the
  stack then.
\<close>

definition resolve_role ::
  "environment \<Rightarrow> 'a request \<Rightarrow> 'a stack \<Rightarrow> (error \<times> 'a stack) + (ref \<times> 'a stack)" where
  "resolve_role e r st =
     (if \<not> truthy (model_execution_role_arn r)
      then Inr (Tok ''Model Execution Role'' ''Arn'', create_role e r st)
      else (case from_role_arn e (the (model_execution_role_arn r)) of
              Inl x \<Rightarrow> Inl (Propagated x, st)
            | Inr u \<Rightarrow>
                Inr (Lit (the (model_execution_role_arn r)),
                     add_construct ''Model Execution Role''
                       (Role (FromRoleArn (the (model_execution_role_arn r))) [] []) st)))"

text \<open>Lines 130 to 137.\<close>

definition resolve_package ::
  "environment \<Rightarrow> 'a request \<Rightarrow> 'a stack \<Rightarrow> (error \<times> 'a stack) + (string \<times> 'a stack)" where
  "resolve_package e r st =
     (if \<not> truthy (model_package_arn r)
      then (if truthy (model_package_group_name r)
            then (let g = the (model_package_group_name r);
                      st1 = st\<lparr>lookups := lookups st @ [ApprovedPackageLookup (region e) g]\<rparr>
                  in case get_approved_package e (region e) g of
                       Inl x \<Rightarrow> Inl (Propagated x, st1)
                     | Inr p \<Rightarrow> Inr (p, st1\<lparr>model_package_arn_attr := Some p\<rparr>))
            else Inl (ValueError
                   ''Either model_package_arn or model_package_group_name is required'', st))
      else (let p = the (model_package_arn r)
            in Inr (p, st\<lparr>model_package_arn_attr := Some p\<rparr>)))"

text \<open>Lines 140 to 152.\<close>

definition create_model ::
  "environment \<Rightarrow> 'a request \<Rightarrow> ref \<Rightarrow> string \<Rightarrow> 'a stack \<Rightarrow> string \<times> 'a stack" where
  "create_model e r role_arn package st =
     (case read_timestamp e st of
        (ts, st1) \<Rightarrow>
          (let model_name = id' r @ ''-model-'' @ ts
           in (model_name,
               add_construct ''Model''
                 (CfnModel role_arn model_name [package]
                    [Tok ''Security Group'' ''GroupId''] (subnet_ids r) []) st1)))"

text \<open>Lines 155 to 161.\<close>

definition create_key :: "'a stack \<Rightarrow> 'a stack" where
  "create_key st =
     mutate ''Endpoint Key'' (grant_encrypt_decrypt ''AccountRootPrincipal'')
       (add_construct ''Endpoint Key''
          (Key ''Key used for encryption of data in Amazon SageMaker Endpoint'' True []) st)"

text \<open>
  The call of line 171: a keyword given both explicitly and through the splatted
  dictionary is a \<^verbatim>\<open>TypeError\<close>, raised before the callee runs.
\<close>

definition ProductionVariantProperty ::
  "string \<Rightarrow> (string \<rightharpoonup> 'a) \<Rightarrow> error + 'a production_variant" where
  "ProductionVariantProperty model_name kwargs =
     (if kwargs ''model_name'' \<noteq> None then Inl (TypeError_multiple_values ''model_name'')
      else Inr (ProductionVariant model_name kwargs))"

text \<open>
  Lines 164 to 177. The arguments are evaluated before \<^verbatim>\<open>CfnEndpointConfig\<close> is
  called, so a failing variant leaves no endpoint configuration behind.
\<close>

definition create_endpoint_config ::
  "environment \<Rightarrow> 'a request \<Rightarrow> string \<Rightarrow> 'a stack \<Rightarrow> (error \<times> 'a stack) + (string \<times> 'a stack)" where
  "create_endpoint_config e r model_name st =
     (case read_timestamp e st of
        (ts, st1) \<Rightarrow>
          (let endpoint_config_name = id' r @ ''-conf-'' @ ts
           in case ProductionVariantProperty model_name (endpoint_config_prod_variant r) of
                Inl err \<Rightarrow> Inl (err, st1)
              | Inr v \<Rightarrow>
                  Inr (endpoint_config_name,
                       mutate ''Endpoint Configuration'' (add_dependency ''Model'')
                         (add_construct ''Endpoint Configuration''
                            (CfnEndpointConfig endpoint_config_name
                               (Tok ''Endpoint Key'' ''KeyId'') [v] []) st1))))"

text \<open>
  Lines 180 to 189. \<^verbatim>\<open>endpoint_config.endpoint_config_name\<close> gives back the string
  the configuration was built with.
\<close>

definition create_endpoint :: "environment \<Rightarrow> string \<Rightarrow> 'a stack \<Rightarrow> 'a stack" where
  "create_endpoint e endpoint_config_name st =
     (let st1 = add_construct ''Endpoint'' (CfnEndpoint (Lit endpoint_config_name) []) st;
          st2 = mutate ''Endpoint'' (add_dependency ''Endpoint Configuration'') st1
      in st2\<lparr>endpoint_url :=
           [Lit ''https://runtime.sagemaker.'', Lit (region e),
            Lit ''.amazonaws.com/endpoints/'', Tok ''Endpoint'' ''EndpointName'',
            Lit ''/invocations'']\<rparr>)"

text \<open>Lines 192 to 202.\<close>

definition add_nag_suppressions :: "'a request \<Rightarrow> 'a stack \<Rightarrow> 'a stack" where
  "add_nag_suppressions r st =
     (if \<not> truthy (model_execution_role_arn r)
      then st\<lparr>nag_suppressions := nag_suppressions st @
             [(''Model Execution Role'', True,
               [NagPackSuppression ''AwsSolutions-IAM5''
                  ''Model execution role requires some generic permissions.''])]\<rparr>
      else st)"

definition init :: "environment \<Rightarrow> 'a request \<Rightarrow> (error \<times> 'a stack) + 'a stack" where
  "init e r =
     (let st1 = add_project_tags r new_stack;
          st2 = create_network e r st1
      in case resolve_role e r st2 of
           Inl err \<Rightarrow> Inl err
         | Inr (role_arn, st3) \<Rightarrow>
             (case resolve_package e r st3 of
                Inl err \<Rightarrow> Inl err
              | Inr (package, st4) \<Rightarrow>
                  (case create_model e r role_arn package st4 of
                     (model_name, st5) \<Rightarrow>
                       (case create_endpoint_config e r model_name (create_key st5) of
                          Inl err \<Rightarrow> Inl err
                        | Inr (endpoint_config_name, st6) \<Rightarrow>
                            Inr (add_nag_suppressions r
                                   (create_endpoint e endpoint_config_name st6))))))"

subsection \<open>Observing a run\<close>

definition outcome_state :: "(error \<times> 'a stack) + 'a stack \<Rightarrow> 'a stack" where
  "outcome_state x = (case x of Inl (err, st) \<Rightarrow> st | Inr st \<Rightarrow> st)"

definition outcome_error :: "(error \<times> 'a stack) + 'a stack \<Rightarrow> error option" where
  "outcome_error x = (case x of Inl (err, st) \<Rightarrow> Some err | Inr st \<Rightarrow> None)"

fun is_resource :: "'a construct \<Rightarrow> bool" where
  "is_resource (Vpc v c) = False"
| "is_resource (Bucket b) = False"
| "is_resource (Role (FromRoleArn a) p g) = False"
| "is_resource c = True"

definition resource_ids :: "'a stack \<Rightarrow> string list" where
  "resource_ids st = map fst (filter (\<lambda>(k, c). is_resource c) (constructs st))"

definition find_construct :: "string \<Rightarrow> 'a stack \<Rightarrow> 'a construct option" where
  "find_construct cid st = map_of (constructs st) cid"

fun ref_deps :: "ref \<Rightarrow> string list" where
  "ref_deps (Lit s) = []"
| "ref_deps (Tok cid attr) = [cid]"

fun deps :: "'a construct \<Rightarrow> string list" where
  "deps (Vpc v c) = []"
| "deps (SecurityGroup v out rules) = [v]"
| "deps (Role origin policy grants) = []"
| "deps (Bucket b) = []"
| "deps (CfnModel role_arn n cs sgs subs ds) = ref_deps role_arn @ concat (map ref_deps sgs) @ ds"
| "deps (Key d rot grants) = []"
| "deps (CfnEndpointConfig n k vs ds) = ref_deps k @ ds"
| "deps (CfnEndpoint n ds) = ref_deps n @ ds"

fun topological :: "string list \<Rightarrow> (string \<times> 'a construct) list \<Rightarrow> bool" where
  "topological seen [] = True"
| "topological seen ((k, c) # cs) =
     (list_all (\<lambda>d. d \<in> set seen) (deps c) \<and> topological (seen @ [k]) cs)"

fun generated_names :: "(string \<times> 'a construct) list \<Rightarrow> string list" where
  "generated_names [] = []"
| "generated_names ((k, CfnModel r n cs sgs subs ds) # xs) = n # generated_names xs"
| "generated_names ((k, CfnEndpointConfig n kk vs ds) # xs) = n # generated_names xs"
| "generated_names ((k, c) # xs) = generated_names xs"

fun is_role :: "'a construct \<Rightarrow> bool" where
  "is_role (Role origin policy grants) = True"
| "is_role c = False"

fun is_key :: "'a construct \<Rightarrow> bool" where
  "is_key (Key d rot grants) = True"
| "is_key c = False"


text \<open>The constructor up to line 55: tags and network.\<close>

abbreviation network_stage :: "environment \<Rightarrow> 'a request \<Rightarrow> 'a stack" where
  "network_stage e r \<equiv> create_network e r (add_project_tags r new_stack)"

text \<open>
  The constructor up to line 128, when the role step does not raise: the ARN of the
  role and the stack with the role in it.
\<close>

abbreviation role_stage :: "environment \<Rightarrow> 'a request \<Rightarrow> ref \<times> 'a stack" where
  "role_stage e r \<equiv> projr (resolve_role e r (network_stage e r))"

text \<open>The role step does not raise: no role is supplied, or the library accepts its ARN.\<close>

definition role_import_passes :: "environment \<Rightarrow> 'a request \<Rightarrow> bool" where
  "role_import_passes e r =
     (\<not> truthy (model_execution_role_arn r) \<or>
      from_role_arn e (the (model_execution_role_arn r)) = Inr ())"

text \<open>
  Lines 130 to 135 yield a package: the request has one, or it names a group for which
  the registry answers.
\<close>

definition package_resolves :: "environment \<Rightarrow> 'a request \<Rightarrow> bool" where
  "package_resolves e r =
     (truthy (model_package_arn r) \<or>
      truthy (model_package_group_name r) \<and>
      \<not> isl (get_approved_package e (region e) (the (model_package_group_name r))))"

text \<open>The last fourteen characters of a name.\<close>

definition timestamp_component :: "string \<Rightarrow> string" where
  "timestamp_component n = drop (length n - 14) n"

subsection \<open>Example inputs\<close>

text \<open>
  The example environments accept a role ARN of the usual shape: it starts with
  \<^verbatim>\<open>arn:\<close>, has at least six components separated by colons, a partition, a
  service, and a resource that names the role after a slash.
\<close>

fun split_colon :: "string \<Rightarrow> string \<Rightarrow> string list" where
  "split_colon acc [] = [rev acc]"
| "split_colon acc (c # cs) =
     (if c = CHR '':'' then rev acc # split_colon [] cs else split_colon (c # acc) cs)"

definition role_arn_shape :: "string \<Rightarrow> string + unit" where
  "role_arn_shape a =
     (let cs = split_colon [] a
      in if 6 \<le> length cs \<and> cs ! 0 = ''arn'' \<and> cs ! 1 \<noteq> [] \<and> cs ! 2 \<noteq> [] \<and>
            CHR ''/'' \<in> set (cs ! 5)
         then Inr () else Inl ''malformed ARN'')"

definition env0 :: environment where
  "env0 =
     \<lparr>region = ''eu-west-1'', account = ''111122223333'',
      vpc_cidr_block = (\<lambda>v. ''10.0.0.0/16''),
      from_role_arn = role_arn_shape,
      get_approved_package = (\<lambda>reg g. Inr ''pkg-7''),
      now = (\<lambda>n. if n = 0
                  then \<lparr>local_fields = civil 2024 3 1 0 0 59, utc_fields = civil 2024 3 1 0 0 59\<rparr>
                  else \<lparr>local_fields = civil 2024 3 1 0 1 0, utc_fields = civil 2024 3 1 0 1 0\<rparr>)\<rparr>"

definition req0 :: "string request" where
  "req0 =
     \<lparr>id' = ''dep'', sagemaker_project_id = None, sagemaker_project_name = None,
      model_package_arn = Some ''pkg-1'', model_package_group_name = None,
      model_execution_role_arn = None, vpc_id = ''vpc-1'', subnet_ids = [''subnet-1''],
      model_artifacts_bucket_arn = Some ''arn:aws:s3:::assets'', ecr_repo_arn = None,
      endpoint_config_prod_variant = [''variant_name'' \<mapsto> ''AllTraffic'']\<rparr>"

text \<open>The same request with neither a model package nor a model package group.\<close>

definition req_missing :: "string request" where
  "req_missing = req0\<lparr>model_package_arn := None\<rparr>"

text \<open>A request that names a package group and leaves the asset bucket out.\<close>

definition req_group :: "string request" where
  "req_group =
     req0\<lparr>model_package_arn := None, model_package_group_name := Some ''grp-A'',
          model_artifacts_bucket_arn := None\<rparr>"

text \<open>A request that brings its own execution role.\<close>

definition req_role :: "string request" where
  "req_role =
     req0\<lparr>model_execution_role_arn :=
            Some ''arn:aws:iam::111122223333:role/service-role/endpoint-execution''\<rparr>"

text \<open>A request whose execution role is not an ARN the library can parse.\<close>

definition req_bad_role :: "string request" where
  "req_bad_role = req0\<lparr>model_execution_role_arn := Some ''arn:role:X''\<rparr>"

text \<open>A request whose variant configuration has the key \<^verbatim>\<open>model_name\<close>.\<close>

definition req_dup :: "string request" where
  "req_dup =
     req0\<lparr>endpoint_config_prod_variant :=
            [''variant_name'' \<mapsto> ''AllTraffic'', ''model_name'' \<mapsto> ''other-model'']\<rparr>"

text \<open>The same variant configuration in a request with no package and no package group.\<close>

definition req_dup_missing :: "string request" where
  "req_dup_missing = req_dup\<lparr>model_package_arn := None\<rparr>"

text \<open>A request that supplies both the asset bucket and the image repository.\<close>

definition req_scoped :: "string request" where
  "req_scoped = req0\<lparr>ecr_repo_arn := Some ''arn:aws:ecr:eu-west-1:111122223333:repository/models''\<rparr>"

text \<open>A later invocation: both readings of the clock fall in the second 00:05:00.\<close>

definition env1 :: environment where
  "env1 =
     env0\<lparr>now := (\<lambda>n. \<lparr>local_fields = civil 2024 3 1 0 5 0,
                           utc_fields = civil 2024 3 1 0 5 0\<rparr>)\<rparr>"

text \<open>
  An invocation that starts in the second after the first reading of \<open>env0\<close>: both of
  its readings fall in the second 00:01:00.
\<close>

definition env2 :: environment where
  "env2 =
     env0\<lparr>now := (\<lambda>n. \<lparr>local_fields = civil 2024 3 1 0 1 0,
                           utc_fields = civil 2024 3 1 0 1 0\<rparr>)\<rparr>"

section \<open>Properties\<close>


lemma length_strftime: "length (strftime d) = 14"
  by (simp add: strftime_def digits4_def digits2_def)

lemma length_get_timestamp: "length (get_timestamp r) = 14"
  by (simp add: get_timestamp_def length_strftime)

subsection \<open>What each step leaves behind\<close>

lemma update_construct_fresh:
  "cid \<notin> fst ` set xs \<Longrightarrow> update_construct cid f (xs @ [(cid, c)]) = xs @ [(cid, f c)]"
  by (induction xs) auto

lemma update_construct_other:
  "cid \<noteq> k \<Longrightarrow> update_construct cid f (xs @ [(k, c)]) = update_construct cid f xs @ [(k, c)]"
  by (induction xs) auto

lemma network_closed:
  "create_network e r (add_project_tags r new_stack) =
     \<lparr>tags = tags (add_project_tags r new_stack),
      constructs = [(''VPC'', Vpc (vpc_id r) (vpc_cidr_block e (vpc_id r))),
                    (''Security Group'',
                     SecurityGroup ''VPC'' True [(vpc_cidr_block e (vpc_id r), ''all_tcp'')])],
      lookups = [VpcLookup (vpc_id r)], clock_reads = 0, nag_suppressions = [],
      model_package_arn_attr = None, endpoint_url = []\<rparr>"
  by (simp add: create_network_def add_project_tags_def new_stack_def add_tag_def
      add_construct_def mutate_def Let_def)

lemma create_role_closed:
  "''Model Execution Role'' \<notin> fst ` set (constructs st) \<Longrightarrow>
   create_role e r st =
     st\<lparr>constructs := constructs st @
       (if truthy (model_artifacts_bucket_arn r)
        then [(''Model Execution Role'',
               Role (ServicePrincipal ''sagemaker.amazonaws.com'')
                 [baseline_statement, kms_statement e,
                  ecr_statement (if truthy (ecr_repo_arn r) then the (ecr_repo_arn r) else ''*'')]
                 [GrantRead (the (model_artifacts_bucket_arn r))]),
              (''Model Bucket'', Bucket (the (model_artifacts_bucket_arn r)))]
        else [(''Model Execution Role'',
               Role (ServicePrincipal ''sagemaker.amazonaws.com'')
                 [baseline_statement, kms_statement e, unscoped_bucket_statement,
                  ecr_statement (if truthy (ecr_repo_arn r) then the (ecr_repo_arn r) else ''*'')]
                 [])])\<rparr>"
  by (cases "truthy (model_artifacts_bucket_arn r)")
     (simp_all add: create_role_def Let_def mutate_def add_construct_def
       update_construct_fresh update_construct_other split del: if_split)

lemma create_model_closed:
  "create_model e r role_arn p st =
     (id' r @ ''-model-'' @ get_timestamp (now e (clock_reads st)),
      st\<lparr>clock_reads := Suc (clock_reads st),
         constructs := constructs st @
           [(''Model'', CfnModel role_arn (id' r @ ''-model-'' @ get_timestamp (now e (clock_reads st)))
               [p] [Tok ''Security Group'' ''GroupId''] (subnet_ids r) [])]\<rparr>)"
  by (simp add: create_model_def read_timestamp_def add_construct_def Let_def)

lemma create_key_closed:
  "''Endpoint Key'' \<notin> fst ` set (constructs st) \<Longrightarrow>
   create_key st =
     st\<lparr>constructs := constructs st @
       [(''Endpoint Key'',
         Key ''Key used for encryption of data in Amazon SageMaker Endpoint'' True
           [GrantEncryptDecrypt ''AccountRootPrincipal''])]\<rparr>"
  by (simp add: create_key_def mutate_def add_construct_def update_construct_fresh)

lemma create_endpoint_config_ok:
  "''Endpoint Configuration'' \<notin> fst ` set (constructs st) \<Longrightarrow>
   endpoint_config_prod_variant r ''model_name'' = None \<Longrightarrow>
   create_endpoint_config e r model_name st =
     Inr (id' r @ ''-conf-'' @ get_timestamp (now e (clock_reads st)),
          st\<lparr>clock_reads := Suc (clock_reads st),
             constructs := constructs st @
               [(''Endpoint Configuration'',
                 CfnEndpointConfig (id' r @ ''-conf-'' @ get_timestamp (now e (clock_reads st)))
                   (Tok ''Endpoint Key'' ''KeyId'')
                   [ProductionVariant model_name (endpoint_config_prod_variant r)]
                   [''Model''])]\<rparr>)"
  by (simp add: create_endpoint_config_def read_timestamp_def ProductionVariantProperty_def
      mutate_def add_construct_def update_construct_fresh Let_def)

lemma create_endpoint_config_duplicate:
  "endpoint_config_prod_variant r ''model_name'' \<noteq> None \<Longrightarrow>
   create_endpoint_config e r model_name st =
     Inl (TypeError_multiple_values ''model_name'', st\<lparr>clock_reads := Suc (clock_reads st)\<rparr>)"
  by (simp add: create_endpoint_config_def read_timestamp_def ProductionVariantProperty_def
      Let_def)

lemma create_endpoint_closed:
  "''Endpoint'' \<notin> fst ` set (constructs st) \<Longrightarrow>
   create_endpoint e n st =
     st\<lparr>constructs := constructs st @
          [(''Endpoint'', CfnEndpoint (Lit n) [''Endpoint Configuration''])],
        endpoint_url :=
          [Lit ''https://runtime.sagemaker.'', Lit (region e),
           Lit ''.amazonaws.com/endpoints/'', Tok ''Endpoint'' ''EndpointName'',
           Lit ''/invocations'']\<rparr>"
  by (simp add: create_endpoint_def mutate_def add_construct_def update_construct_fresh Let_def)

lemma role_stage_imported:
  "truthy (model_execution_role_arn r) \<Longrightarrow>
   from_role_arn e (the (model_execution_role_arn r)) = Inr () \<Longrightarrow>
   resolve_role e r (network_stage e r) =
     Inr (Lit (the (model_execution_role_arn r)),
      \<lparr>tags = tags (add_project_tags r new_stack),
       constructs = [(''VPC'', Vpc (vpc_id r) (vpc_cidr_block e (vpc_id r))),
                     (''Security Group'',
                      SecurityGroup ''VPC'' True [(vpc_cidr_block e (vpc_id r), ''all_tcp'')]),
                     (''Model Execution Role'',
                      Role (FromRoleArn (the (model_execution_role_arn r))) [] [])],
       lookups = [VpcLookup (vpc_id r)], clock_reads = 0, nag_suppressions = [],
       model_package_arn_attr = None, endpoint_url = []\<rparr>)"
  by (simp add: resolve_role_def network_closed add_construct_def)

lemma role_stage_created:
  "\<not> truthy (model_execution_role_arn r) \<Longrightarrow>
   resolve_role e r (network_stage e r) =
     Inr (Tok ''Model Execution Role'' ''Arn'',
      \<lparr>tags = tags (add_project_tags r new_stack),
       constructs =
         [(''VPC'', Vpc (vpc_id r) (vpc_cidr_block e (vpc_id r))),
          (''Security Group'',
           SecurityGroup ''VPC'' True [(vpc_cidr_block e (vpc_id r), ''all_tcp'')])] @
         (if truthy (model_artifacts_bucket_arn r)
          then [(''Model Execution Role'',
                 Role (ServicePrincipal ''sagemaker.amazonaws.com'')
                   [baseline_statement, kms_statement e,
                    ecr_statement (if truthy (ecr_repo_arn r) then the (ecr_repo_arn r) else ''*'')]
                   [GrantRead (the (model_artifacts_bucket_arn r))]),
                (''Model Bucket'', Bucket (the (model_artifacts_bucket_arn r)))]
          else [(''Model Execution Role'',
                 Role (ServicePrincipal ''sagemaker.amazonaws.com'')
                   [baseline_statement, kms_statement e, unscoped_bucket_statement,
                    ecr_statement (if truthy (ecr_repo_arn r) then the (ecr_repo_arn r) else ''*'')]
                   [])]),
       lookups = [VpcLookup (vpc_id r)], clock_reads = 0, nag_suppressions = [],
       model_package_arn_attr = None, endpoint_url = []\<rparr>)"
  by (simp add: resolve_role_def network_closed create_role_closed split del: if_split)

lemma role_stage_passes:
  assumes "role_import_passes e r"
  obtains role_arn st3 where "resolve_role e r (network_stage e r) = Inr (role_arn, st3)"
  using assms
  by (cases "truthy (model_execution_role_arn r)")
     (auto simp: role_import_passes_def resolve_role_def)

lemma role_stage_fields:
  assumes "role_import_passes e r"
  shows "lookups (snd (role_stage e r)) = [VpcLookup (vpc_id r)]"
    "clock_reads (snd (role_stage e r)) = 0"
    "nag_suppressions (snd (role_stage e r)) = []"
    "''Model'' \<notin> fst ` set (constructs (snd (role_stage e r)))"
    "''Endpoint Key'' \<notin> fst ` set (constructs (snd (role_stage e r)))"
    "''Endpoint Configuration'' \<notin> fst ` set (constructs (snd (role_stage e r)))"
    "''Endpoint'' \<notin> fst ` set (constructs (snd (role_stage e r)))"
  using assms
  by (cases "truthy (model_execution_role_arn r)"; cases "truthy (model_artifacts_bucket_arn r)";
      simp add: role_import_passes_def role_stage_imported role_stage_created
        split del: if_split)+

lemma resolve_package_fields:
  assumes "resolve_package e r st = Inr (p, st4)"
  shows "constructs st4 = constructs st" "clock_reads st4 = clock_reads st"
    "nag_suppressions st4 = nag_suppressions st" "tags st4 = tags st"
    "model_package_arn_attr st4 = Some p"
  using assms by (auto simp: resolve_package_def Let_def split: if_splits sum.splits)

lemma init_closed:
  assumes passes: "role_import_passes e r"
  shows "init e r =
     (case resolve_package e r (snd (role_stage e r)) of
        Inl err \<Rightarrow> Inl err
      | Inr (p, st4) \<Rightarrow>
          (if endpoint_config_prod_variant r ''model_name'' \<noteq> None
           then Inl (TypeError_multiple_values ''model_name'',
                  st4\<lparr>clock_reads := 2,
                      constructs := constructs (snd (role_stage e r)) @
                        [(''Model'',
                          CfnModel (fst (role_stage e r))
                            (id' r @ ''-model-'' @ get_timestamp (now e 0)) [p]
                            [Tok ''Security Group'' ''GroupId''] (subnet_ids r) []),
                         (''Endpoint Key'',
                          Key ''Key used for encryption of data in Amazon SageMaker Endpoint''
                            True [GrantEncryptDecrypt ''AccountRootPrincipal''])]\<rparr>)
           else Inr (add_nag_suppressions r
                  (st4\<lparr>clock_reads := 2,
                      constructs := constructs (snd (role_stage e r)) @
                        [(''Model'',
                          CfnModel (fst (role_stage e r))
                            (id' r @ ''-model-'' @ get_timestamp (now e 0)) [p]
                            [Tok ''Security Group'' ''GroupId''] (subnet_ids r) []),
                         (''Endpoint Key'',
                          Key ''Key used for encryption of data in Amazon SageMaker Endpoint''
                            True [GrantEncryptDecrypt ''AccountRootPrincipal'']),
                         (''Endpoint Configuration'',
                          CfnEndpointConfig (id' r @ ''-conf-'' @ get_timestamp (now e 1))
                            (Tok ''Endpoint Key'' ''KeyId'')
                            [ProductionVariant (id' r @ ''-model-'' @ get_timestamp (now e 0))
                               (endpoint_config_prod_variant r)]
                            [''Model'']),
                         (''Endpoint'',
                          CfnEndpoint (Lit (id' r @ ''-conf-'' @ get_timestamp (now e 1)))
                            [''Endpoint Configuration''])],
                      endpoint_url :=
                        [Lit ''https://runtime.sagemaker.'', Lit (region e),
                         Lit ''.amazonaws.com/endpoints/'', Tok ''Endpoint'' ''EndpointName'',
                         Lit ''/invocations'']\<rparr>))))"
proof -
  from passes obtain role_arn st3 where
    rr: "resolve_role e r (network_stage e r) = Inr (role_arn, st3)"
    by (rule role_stage_passes)
  show ?thesis
  proof (cases "resolve_package e r st3")
    case (Inl err)
    then show ?thesis by (simp add: init_def Let_def rr)
  next
    case (Inr x)
    obtain p st4 where x: "x = (p, st4)" by (cases x)
    note f = resolve_package_fields[OF Inr[unfolded x]] role_stage_fields[OF passes, unfolded rr]
    show ?thesis
    proof (cases "endpoint_config_prod_variant r ''model_name'' = None")
      case True
      then show ?thesis
        using Inr x f
        by (simp add: init_def Let_def rr create_model_closed create_key_closed
            create_endpoint_config_ok create_endpoint_closed case_prod_beta numeral_2_eq_2)
    next
      case False
      then show ?thesis
        using Inr x f
        by (simp add: init_def Let_def rr create_model_closed create_key_closed
            create_endpoint_config_duplicate case_prod_beta numeral_2_eq_2)
    qed
  qed
qed

lemma init_rejected:
  "truthy (model_execution_role_arn r) \<Longrightarrow>
   from_role_arn e (the (model_execution_role_arn r)) = Inl x \<Longrightarrow>
   init e r = Inl (Propagated x, network_stage e r)"
  by (simp add: init_def Let_def resolve_role_def)


lemma resolve_package_Inl:
  assumes "resolve_package e r st = Inl (err, st')"
  shows "\<not> truthy (model_package_arn r) \<and> constructs st' = constructs st \<and>
         nag_suppressions st' = nag_suppressions st \<and>
         (if truthy (model_package_group_name r)
          then (\<exists>x. get_approved_package e (region e) (the (model_package_group_name r)) = Inl x \<and>
                  err = Propagated x) \<and>
               lookups st' = lookups st @
                 [ApprovedPackageLookup (region e) (the (model_package_group_name r))]
          else err = ValueError ''Either model_package_arn or model_package_group_name is required'' \<and>
               st' = st)"
  using assms by (auto simp: resolve_package_def Let_def split: if_splits sum.splits)

lemma init_outcomes:
  obtains
    (rejected) x where "truthy (model_execution_role_arn r)"
      "from_role_arn e (the (model_execution_role_arn r)) = Inl x"
      "init e r = Inl (Propagated x, network_stage e r)"
  | (early) err st' where "role_import_passes e r" "resolve_package e r (snd (role_stage e r)) = Inl (err, st')"
      "init e r = Inl (err, st')"
  | (duplicate) p st4 where "role_import_passes e r" "resolve_package e r (snd (role_stage e r)) = Inr (p, st4)"
      "endpoint_config_prod_variant r ''model_name'' \<noteq> None"
      "outcome_error (init e r) = Some (TypeError_multiple_values ''model_name'')"
      "constructs (outcome_state (init e r)) = constructs (snd (role_stage e r)) @
         [(''Model'',
           CfnModel (fst (role_stage e r)) (id' r @ ''-model-'' @ get_timestamp (now e 0)) [p]
             [Tok ''Security Group'' ''GroupId''] (subnet_ids r) []),
          (''Endpoint Key'',
           Key ''Key used for encryption of data in Amazon SageMaker Endpoint''
             True [GrantEncryptDecrypt ''AccountRootPrincipal''])]"
      "lookups (outcome_state (init e r)) = lookups st4"
      "nag_suppressions (outcome_state (init e r)) = []"
  | (success) p st4 where "role_import_passes e r" "resolve_package e r (snd (role_stage e r)) = Inr (p, st4)"
      "endpoint_config_prod_variant r ''model_name'' = None"
      "outcome_error (init e r) = None"
      "constructs (outcome_state (init e r)) = constructs (snd (role_stage e r)) @
         [(''Model'',
           CfnModel (fst (role_stage e r)) (id' r @ ''-model-'' @ get_timestamp (now e 0)) [p]
             [Tok ''Security Group'' ''GroupId''] (subnet_ids r) []),
          (''Endpoint Key'',
           Key ''Key used for encryption of data in Amazon SageMaker Endpoint''
             True [GrantEncryptDecrypt ''AccountRootPrincipal'']),
          (''Endpoint Configuration'',
           CfnEndpointConfig (id' r @ ''-conf-'' @ get_timestamp (now e 1))
             (Tok ''Endpoint Key'' ''KeyId'')
             [ProductionVariant (id' r @ ''-model-'' @ get_timestamp (now e 0))
                (endpoint_config_prod_variant r)]
             [''Model'']),
          (''Endpoint'',
           CfnEndpoint (Lit (id' r @ ''-conf-'' @ get_timestamp (now e 1)))
             [''Endpoint Configuration''])]"
      "lookups (outcome_state (init e r)) = lookups st4"
      "nag_suppressions (outcome_state (init e r)) =
         (if truthy (model_execution_role_arn r) then []
          else [(''Model Execution Role'', True,
                 [NagPackSuppression ''AwsSolutions-IAM5''
                    ''Model execution role requires some generic permissions.''])])"
proof (cases "role_import_passes e r")
  case False
  then obtain x where "truthy (model_execution_role_arn r)"
    "from_role_arn e (the (model_execution_role_arn r)) = Inl x"
    by (cases "from_role_arn e (the (model_execution_role_arn r))")
       (auto simp: role_import_passes_def)
  then show ?thesis by (intro rejected[of x]) (simp_all add: init_rejected)
next
  case passes: True
  show ?thesis
  proof (cases "resolve_package e r (snd (role_stage e r))")
    case (Inl x)
    obtain err st' where x: "x = (err, st')" by (cases x)
    show ?thesis
      using Inl x passes by (intro early[of err st']) (simp_all add: init_closed)
  next
    case (Inr x)
    obtain p st4 where x: "x = (p, st4)" by (cases x)
    note f = resolve_package_fields[OF Inr[unfolded x]] role_stage_fields[OF passes]
    show ?thesis
    proof (cases "endpoint_config_prod_variant r ''model_name'' = None")
      case True
      show ?thesis
        using Inr x True f passes
        by (intro success[of p st4]; cases "truthy (model_execution_role_arn r)";
            simp add: init_closed outcome_state_def outcome_error_def add_nag_suppressions_def
              split del: if_split)
    next
      case False
      show ?thesis
        using Inr x False f passes
        by (intro duplicate[of p st4])
           (simp_all add: init_closed outcome_state_def outcome_error_def split del: if_split)
    qed
  qed
qed

lemma find_construct_tail:
  "constructs st = xs @ ys \<Longrightarrow> k \<notin> fst ` set xs \<Longrightarrow> find_construct k st = map_of ys k"
proof -
  assume c: "constructs st = xs @ ys" and k: "k \<notin> fst ` set xs"
  from k have "map_of xs k = None" by (simp add: map_of_eq_None_iff)
  with c show ?thesis by (simp add: find_construct_def map_add_def)
qed

lemma generated_names_append:
  "generated_names (xs @ ys) = generated_names xs @ generated_names ys"
  by (induction xs rule: generated_names.induct) auto

lemma role_stage_kinds:
  assumes "role_import_passes e r"
  shows "filter (\<lambda>(k, c). is_key c) (constructs (snd (role_stage e r))) = []"
    "generated_names (constructs (snd (role_stage e r))) = []"
  using assms
  by (cases "truthy (model_execution_role_arn r)"; cases "truthy (model_artifacts_bucket_arn r)";
      simp add: role_import_passes_def role_stage_imported role_stage_created
        split del: if_split)+

lemma package_resolves_iff:
  "package_resolves e r \<longleftrightarrow> (\<exists>p st4. resolve_package e r st = Inr (p, st4))"
  by (cases "get_approved_package e (region e) (the (model_package_group_name r))")
     (auto simp: package_resolves_def resolve_package_def Let_def)

lemma outcome_error_None_iff:
  "outcome_error (init e r) = None \<longleftrightarrow>
     role_import_passes e r \<and> package_resolves e r \<and>
     endpoint_config_prod_variant r ''model_name'' = None"
proof (cases rule: init_outcomes[where e=e and r=r])
  case (rejected x)
  then show ?thesis by (simp add: outcome_error_def role_import_passes_def)
next
  case (early err st')
  then show ?thesis
    by (simp add: outcome_error_def package_resolves_iff[of e r "snd (role_stage e r)"])
next
  case (duplicate p st4)
  then show ?thesis by simp
next
  case (success p st4)
  then show ?thesis
    by (simp add: package_resolves_iff[of e r "snd (role_stage e r)"])
qed

lemma duplicate_error_iff:
  "outcome_error (init e r) = Some (TypeError_multiple_values ''model_name'') \<longleftrightarrow>
     role_import_passes e r \<and> package_resolves e r \<and>
     endpoint_config_prod_variant r ''model_name'' \<noteq> None"
proof (cases rule: init_outcomes[where e=e and r=r])
  case (rejected x)
  then show ?thesis by (simp add: outcome_error_def role_import_passes_def)
next
  case (early err st')
  from resolve_package_Inl[OF early(2)] early show ?thesis
    by (auto simp: outcome_error_def package_resolves_iff[of e r "snd (role_stage e r)"]
        split: if_splits)
next
  case (duplicate p st4)
  then show ?thesis
    by (simp add: package_resolves_iff[of e r "snd (role_stage e r)"])
next
  case (success p st4)
  then show ?thesis by simp
qed

lemma find_role_stage:
  assumes passes: "role_import_passes e r"
  shows "find_construct ''Model Execution Role'' (outcome_state (init e r)) =
     find_construct ''Model Execution Role'' (snd (role_stage e r))"
  "find_construct ''Model Bucket'' (outcome_state (init e r)) =
     find_construct ''Model Bucket'' (snd (role_stage e r))"
proof -
  have "find_construct k (outcome_state (init e r)) = find_construct k (snd (role_stage e r))"
    if "k = ''Model Execution Role'' \<or> k = ''Model Bucket''" for k
  proof (cases rule: init_outcomes[where e=e and r=r])
    case (rejected x)
    with passes show ?thesis by (simp add: role_import_passes_def)
  next
    case (early err st')
    from resolve_package_Inl[OF early(2)] early(3) show ?thesis
      by (simp add: outcome_state_def find_construct_def)
  next
    case (duplicate p st4)
    from duplicate(5) that show ?thesis
      by (auto simp: find_construct_def map_add_def split: option.split)
  next
    case (success p st4)
    from success(5) that show ?thesis
      by (auto simp: find_construct_def map_add_def split: option.split)
  qed
  then show "find_construct ''Model Execution Role'' (outcome_state (init e r)) =
     find_construct ''Model Execution Role'' (snd (role_stage e r))"
    "find_construct ''Model Bucket'' (outcome_state (init e r)) =
     find_construct ''Model Bucket'' (snd (role_stage e r))"
    by simp_all
qed

lemma nag_outcome:
  "nag_suppressions (outcome_state (init e r)) =
     (if outcome_error (init e r) = None \<and> \<not> truthy (model_execution_role_arn r)
      then [(''Model Execution Role'', True,
             [NagPackSuppression ''AwsSolutions-IAM5''
                ''Model execution role requires some generic permissions.''])]
      else [])"
proof (cases rule: init_outcomes[where e=e and r=r])
  case (rejected x)
  then show ?thesis by (simp add: outcome_error_def outcome_state_def network_closed)
next
  case (early err st')
  from resolve_package_Inl[OF early(2)] early(1,3) show ?thesis
    by (simp add: outcome_error_def outcome_state_def role_stage_fields)
next
  case (duplicate p st4)
  then show ?thesis by simp
next
  case (success p st4)
  then show ?thesis by simp
qed

lemma get_timestamp_env0:
  "get_timestamp (now env0 0) = ''20240301000059''"
  "get_timestamp (now env0 (Suc 0)) = ''20240301000100''"
  by (simp_all add: env0_def get_timestamp_def civil_def datetime_now_def replace_tzinfo_def
      strftime_def digits4_def digits2_def digit_def)

lemma timestamp_component_append:
  "length ts = 14 \<Longrightarrow> timestamp_component (xs @ ts) = ts"
  by (simp add: timestamp_component_def)

lemma append_same_length:
  "length u = length v \<Longrightarrow> x @ u = y @ v \<Longrightarrow> x = y \<and> u = v"
  by simp

lemma names_equal_kind:
  assumes "length t = 14" and "length t' = 14" and "a @ k @ t = b @ k' @ t'"
  shows "t = t'"
proof -
  have len: "length t = length t'" using assms by simp
  have "(a @ k) @ t = (b @ k') @ t'" using assms(3) by simp
  from append_same_length[OF len this] show ?thesis by simp
qed

lemma names_differ_in_kind:
  assumes "length t = 14" and "length t' = 14"
  shows "a @ ''-model-'' @ t \<noteq> b @ ''-conf-'' @ t'"
proof
  assume "a @ ''-model-'' @ t = b @ ''-conf-'' @ t'"
  then have eq: "(a @ ''-model-'') @ t = (b @ ''-conf-'') @ t'" by simp
  have len: "length t = length t'" using assms by simp
  from append_same_length[OF len eq] have "(a @ ''-'') @ ''model-'' = b @ ''-conf-''"
    by simp
  from append_same_length[OF _ this] have "''model-'' = ''-conf-''" by simp
  then show False by simp
qed

lemma generated_names_success:
  assumes "outcome_error (init e r) = None"
  shows "generated_names (constructs (outcome_state (init e r))) =
           [id' r @ ''-model-'' @ get_timestamp (now e 0),
            id' r @ ''-conf-'' @ get_timestamp (now e 1)]"
proof (cases rule: init_outcomes[where e=e and r=r])
  case (rejected x)
  with assms show ?thesis by (simp add: outcome_error_def)
next
  case (early err st')
  with assms show ?thesis by (simp add: outcome_error_def)
next
  case (duplicate p st4)
  with assms show ?thesis by simp
next
  case (success p st4)
  then show ?thesis
    by (simp add: generated_names_append role_stage_kinds)
qed

lemma get_timestamp_later:
  "get_timestamp (now env1 n) = ''20240301000500''"
  "get_timestamp (now env2 n) = ''20240301000100''"
  by (simp_all add: env1_def env2_def get_timestamp_def civil_def datetime_now_def
      replace_tzinfo_def strftime_def digits4_def digits2_def digit_def)

lemma req0_succeeds:
  "outcome_error (init env0 req0) = None"
  "outcome_error (init env1 req0) = None"
  "outcome_error (init env2 req0) = None"
  by (simp_all add: outcome_error_None_iff role_import_passes_def package_resolves_def
      req0_def truthy_def)

lemma role_arn_shape_examples:
  "role_arn_shape ''arn:aws:iam::111122223333:role/service-role/endpoint-execution'' = Inr ()"
  "role_arn_shape ''arn:role:X'' = Inl ''malformed ARN''"
  by (simp_all add: role_arn_shape_def)

lemma key_and_config:
  "filter (\<lambda>(k, c). is_key c) (constructs (outcome_state (init e r))) =
     (if role_import_passes e r \<and> package_resolves e r
      then [(''Endpoint Key'',
             Key ''Key used for encryption of data in Amazon SageMaker Endpoint'' True
               [GrantEncryptDecrypt ''AccountRootPrincipal''])]
      else []) \<and>
   find_construct ''Endpoint Configuration'' (outcome_state (init e r)) =
     (if outcome_error (init e r) = None
      then Some (CfnEndpointConfig (id' r @ ''-conf-'' @ get_timestamp (now e 1))
                   (Tok ''Endpoint Key'' ''KeyId'')
                   [ProductionVariant (id' r @ ''-model-'' @ get_timestamp (now e 0))
                      (endpoint_config_prod_variant r)]
                   [''Model''])
      else None)"
proof (cases rule: init_outcomes[where e=e and r=r])
  case (rejected x)
  then show ?thesis
    by (simp add: outcome_state_def outcome_error_def network_closed find_construct_def
        role_import_passes_def)
next
  case (early err st')
  have "\<not> package_resolves e r"
    using early(2) by (simp add: package_resolves_iff[of e r "snd (role_stage e r)"])
  moreover have "find_construct ''Endpoint Configuration'' st' = None"
    using resolve_package_Inl[OF early(2)] role_stage_fields(6)[OF early(1)]
    by (simp add: find_construct_def map_of_eq_None_iff)
  moreover have "filter (\<lambda>(k, c). is_key c) (constructs st') = []"
    using resolve_package_Inl[OF early(2)] by (simp add: role_stage_kinds[OF early(1)])
  ultimately show ?thesis
    using early(3) by (simp add: outcome_state_def outcome_error_def)
next
  case (duplicate p st4)
  have "package_resolves e r"
    using duplicate(2) by (simp add: package_resolves_iff[of e r "snd (role_stage e r)"])
  moreover have "filter (\<lambda>(k, c). is_key c) (constructs (outcome_state (init e r))) =
      [(''Endpoint Key'',
        Key ''Key used for encryption of data in Amazon SageMaker Endpoint'' True
          [GrantEncryptDecrypt ''AccountRootPrincipal''])]"
    by (simp add: duplicate(5) role_stage_kinds[OF duplicate(1)])
  moreover have "find_construct ''Endpoint Configuration'' (outcome_state (init e r)) = None"
    by (simp add: find_construct_tail[OF duplicate(5) role_stage_fields(6)[OF duplicate(1)]])
  ultimately show ?thesis
    using duplicate(1,4) by simp
next
  case (success p st4)
  have "package_resolves e r"
    using success(2) by (simp add: package_resolves_iff[of e r "snd (role_stage e r)"])
  moreover have "filter (\<lambda>(k, c). is_key c) (constructs (outcome_state (init e r))) =
      [(''Endpoint Key'',
        Key ''Key used for encryption of data in Amazon SageMaker Endpoint'' True
          [GrantEncryptDecrypt ''AccountRootPrincipal''])]"
    by (simp add: success(5) role_stage_kinds[OF success(1)])
  moreover have "find_construct ''Endpoint Configuration'' (outcome_state (init e r)) =
      Some (CfnEndpointConfig (id' r @ ''-conf-'' @ get_timestamp (now e 1))
              (Tok ''Endpoint Key'' ''KeyId'')
              [ProductionVariant (id' r @ ''-model-'' @ get_timestamp (now e 0))
                 (endpoint_config_prod_variant r)]
              [''Model''])"
    by (simp add: find_construct_tail[OF success(5) role_stage_fields(6)[OF success(1)]])
  ultimately show ?thesis
    using success(1,4) by simp
qed

subsection \<open>The claims\<close>

text \<open>
  C1, as amended. \<^verbatim>\<open>get_timestamp()\<close> is called once for each generated name: the
  model name carries the first reading of the clock, the endpoint configuration name the
  second. The two components are the same only when both readings show the same
  second. Two invocations whose readings differ for the model name and differ for the
  configuration name have no name in common.
\<close>

theorem each_name_samples_the_clock:
  assumes "outcome_error (init e r) = None" and "outcome_error (init e' r') = None"
  shows "generated_names (constructs (outcome_state (init e r))) =
           [id' r @ ''-model-'' @ get_timestamp (now e 0),
            id' r @ ''-conf-'' @ get_timestamp (now e 1)] \<and>
         map timestamp_component (generated_names (constructs (outcome_state (init e r)))) =
           [get_timestamp (now e 0), get_timestamp (now e 1)] \<and>
         (get_timestamp (now e 0) \<noteq> get_timestamp (now e' 0) \<and>
          get_timestamp (now e 1) \<noteq> get_timestamp (now e' 1) \<longrightarrow>
          set (generated_names (constructs (outcome_state (init e r)))) \<inter>
          set (generated_names (constructs (outcome_state (init e' r')))) = {})"
proof -
  note n = generated_names_success[OF assms(1)] generated_names_success[OF assms(2)]
  note l = length_get_timestamp
  have comp: "map timestamp_component (generated_names (constructs (outcome_state (init e r)))) =
      [get_timestamp (now e 0), get_timestamp (now e 1)]"
    unfolding n(1)
    using timestamp_component_append[OF l, of "id' r @ ''-model-''" "now e 0"]
      timestamp_component_append[OF l, of "id' r @ ''-conf-''" "now e 1"]
    by simp
  have disj: "set (generated_names (constructs (outcome_state (init e r)))) \<inter>
      set (generated_names (constructs (outcome_state (init e' r')))) = {}"
    if "get_timestamp (now e 0) \<noteq> get_timestamp (now e' 0)"
      and "get_timestamp (now e 1) \<noteq> get_timestamp (now e' 1)"
    unfolding n
    using that
      names_equal_kind[OF l l, of "id' r" "''-model-''" "now e 0" "id' r'" "''-model-''" "now e' 0"]
      names_equal_kind[OF l l, of "id' r" "''-conf-''" "now e 1" "id' r'" "''-conf-''" "now e' 1"]
      names_differ_in_kind[OF l l, of "id' r" "now e 0" "id' r'" "now e' 1"]
      names_differ_in_kind[OF l l, of "id' r'" "now e' 0" "id' r" "now e 1"]
    by auto
  from n(1) comp disj show ?thesis by blast
qed

text \<open>
  Two runs of \<open>req0\<close>, on \<open>env0\<close> and, minutes later, on \<open>env1\<close>.
\<close>

theorem each_name_samples_the_clock_witness:
  "outcome_error (init env0 req0) = None \<and> outcome_error (init env1 req0) = None \<and>
   get_timestamp (now env0 0) \<noteq> get_timestamp (now env1 0) \<and>
   get_timestamp (now env0 1) \<noteq> get_timestamp (now env1 1) \<and>
   generated_names (constructs (outcome_state (init env0 req0))) =
     [''dep-model-20240301000059'', ''dep-conf-20240301000100''] \<and>
   map timestamp_component (generated_names (constructs (outcome_state (init env0 req0)))) =
     [''20240301000059'', ''20240301000100''] \<and>
   set (generated_names (constructs (outcome_state (init env0 req0)))) \<inter>
   set (generated_names (constructs (outcome_state (init env1 req0)))) = {}"
proof -
  have a: "id' req0 = ''dep''" by (simp add: req0_def)
  have d: "get_timestamp (now env0 0) \<noteq> get_timestamp (now env1 0)"
    "get_timestamp (now env0 1) \<noteq> get_timestamp (now env1 1)"
    by (simp_all add: get_timestamp_env0 get_timestamp_later)
  note t = each_name_samples_the_clock [OF req0_succeeds(1) req0_succeeds(2)]
  have n: "generated_names (constructs (outcome_state (init env0 req0))) =
      [''dep-model-20240301000059'', ''dep-conf-20240301000100'']"
    using t [THEN conjunct1] by (simp add: a get_timestamp_env0)
  have c: "map timestamp_component (generated_names (constructs (outcome_state (init env0 req0)))) =
      [''20240301000059'', ''20240301000100'']"
    using t [THEN conjunct2, THEN conjunct1] by (simp only: get_timestamp_env0 One_nat_def)
  have i: "set (generated_names (constructs (outcome_state (init env0 req0)))) \<inter>
      set (generated_names (constructs (outcome_state (init env1 req0)))) = {}"
    using t [THEN conjunct2, THEN conjunct2] d by blast
  from req0_succeeds(1,2) d n c i show ?thesis by blast
qed

text \<open>
  C1 as stated does not hold. On \<open>env0\<close> the second changes between the two calls
  and the two names of one plan carry different timestamps. The invocation on
  \<open>env2\<close> starts in another second than the one on \<open>env0\<close> and still produces the
  same endpoint configuration name.
\<close>

theorem model_and_config_timestamps_differ:
  "outcome_error (init env0 req0) = None \<and>
   map timestamp_component (generated_names (constructs (outcome_state (init env0 req0)))) =
     [''20240301000059'', ''20240301000100''] \<and>
   outcome_error (init env2 req0) = None \<and>
   get_timestamp (now env0 0) \<noteq> get_timestamp (now env2 0) \<and>
   ''dep-conf-20240301000100'' \<in>
     set (generated_names (constructs (outcome_state (init env0 req0)))) \<inter>
     set (generated_names (constructs (outcome_state (init env2 req0))))"
proof -
  have a: "id' req0 = ''dep''" by (simp add: req0_def)
  show ?thesis
    by (simp add: req0_succeeds generated_names_success a get_timestamp_env0
        get_timestamp_later timestamp_component_def)
qed

text \<open>
  C2, as amended. With neither a model package nor a package group, and the role step
  passed, the constructor raises the \<^verbatim>\<open>ValueError\<close> of line 135 and the package
  registry is never asked. The check comes after the network and the role: the VPC
  lookup has been made, and the security group and, unless the caller brought a role,
  the execution role are already in the stack. No model, key, endpoint configuration or
  endpoint exists.
\<close>

theorem missing_package_raises_after_role:
  assumes "\<not> truthy (model_package_arn r)" and "\<not> truthy (model_package_group_name r)"
    and "role_import_passes e r"
  shows "outcome_error (init e r) =
           Some (ValueError ''Either model_package_arn or model_package_group_name is required'') \<and>
         lookups (outcome_state (init e r)) = [VpcLookup (vpc_id r)] \<and>
         resource_ids (outcome_state (init e r)) =
           ''Security Group'' #
           (if truthy (model_execution_role_arn r) then [] else [''Model Execution Role''])"
proof -
  have "init e r =
      Inl (ValueError ''Either model_package_arn or model_package_group_name is required'',
           snd (role_stage e r))"
    using assms by (simp add: init_closed resolve_package_def)
  then show ?thesis
    using assms(3)
    by (cases "truthy (model_execution_role_arn r)";
        cases "truthy (model_artifacts_bucket_arn r)";
        simp add: outcome_error_def outcome_state_def resource_ids_def role_import_passes_def
          role_stage_imported role_stage_created split del: if_split)
qed

text \<open>The request \<open>req_missing\<close> has neither identifier and no role of its own.\<close>

theorem missing_package_raises_after_role_witness:
  "\<not> truthy (model_package_arn req_missing) \<and>
   \<not> truthy (model_package_group_name req_missing) \<and>
   role_import_passes env0 req_missing \<and>
   outcome_error (init env0 req_missing) =
     Some (ValueError ''Either model_package_arn or model_package_group_name is required'') \<and>
   lookups (outcome_state (init env0 req_missing)) = [VpcLookup ''vpc-1''] \<and>
   resource_ids (outcome_state (init env0 req_missing)) =
     [''Security Group'', ''Model Execution Role'']"
proof -
  have h1: "\<not> truthy (model_package_arn req_missing)"
    and h2: "\<not> truthy (model_package_group_name req_missing)"
    and h3: "role_import_passes env0 req_missing"
    by (simp_all add: req_missing_def req0_def truthy_def role_import_passes_def)
  have a: "vpc_id req_missing = ''vpc-1''" "\<not> truthy (model_execution_role_arn req_missing)"
    by (simp_all add: req_missing_def req0_def truthy_def)
  show ?thesis
    using h1 h2 h3 missing_package_raises_after_role [OF h1 h2 h3] by (simp add: a)
qed

text \<open>
  C2 as stated does not hold: at the raise the VPC has been looked up and two resources
  have been constructed.
\<close>

theorem missing_package_leaves_partial_stack:
  "outcome_error (init env0 req_missing) =
     Some (ValueError ''Either model_package_arn or model_package_group_name is required'') \<and>
   resource_ids (outcome_state (init env0 req_missing)) =
     [''Security Group'', ''Model Execution Role''] \<and>
   lookups (outcome_state (init env0 req_missing)) = [VpcLookup ''vpc-1'']"
proof -
  have a: "\<not> truthy (model_package_arn req_missing)"
    "\<not> truthy (model_package_group_name req_missing)"
    "\<not> truthy (model_execution_role_arn req_missing)"
    "truthy (model_artifacts_bucket_arn req_missing)"
    "vpc_id req_missing = ''vpc-1''"
    by (simp_all add: req_missing_def req0_def truthy_def)
  have "init env0 req_missing =
      Inl (ValueError ''Either model_package_arn or model_package_group_name is required'',
           snd (role_stage env0 req_missing))"
    using a by (simp add: init_closed role_import_passes_def resolve_package_def)
  then show ?thesis
    using a by (simp add: outcome_error_def outcome_state_def resource_ids_def
        role_stage_created split del: if_split)
qed

text \<open>
  C3. When the request carries an execution role (a non-empty string, the test of
  line 58), role resolution is the import of that ARN and nothing else. If the library
  accepts the ARN, the stack holds, whatever the outcome of the run, exactly one role
  construct: the reference to the caller's ARN, with no policy statement and no grant.
  If the library rejects the ARN, the import raises, the constructor ends with that
  error and the stack holds no role at all. Either way no bucket is imported and no
  suppression is recorded: the branch of lines 60 to 125 is not taken.
\<close>

theorem supplied_role_is_a_reference:
  assumes "truthy (model_execution_role_arn r)"
  shows "filter (\<lambda>(k, c). is_role c) (constructs (outcome_state (init e r))) =
           (if from_role_arn e (the (model_execution_role_arn r)) = Inr ()
            then [(''Model Execution Role'',
                   Role (FromRoleArn (the (model_execution_role_arn r))) [] [])]
            else []) \<and>
         find_construct ''Model Bucket'' (outcome_state (init e r)) = None \<and>
         nag_suppressions (outcome_state (init e r)) = [] \<and>
         (from_role_arn e (the (model_execution_role_arn r)) = Inr () \<longrightarrow>
            resolve_role e r st =
              Inr (Lit (the (model_execution_role_arn r)),
                   add_construct ''Model Execution Role''
                     (Role (FromRoleArn (the (model_execution_role_arn r))) [] []) st)) \<and>
         (\<forall>x. from_role_arn e (the (model_execution_role_arn r)) = Inl x \<longrightarrow>
            resolve_role e r st = Inl (Propagated x, st) \<and>
            outcome_error (init e r) = Some (Propagated x))"
proof -
  have step: "resolve_role e r st =
      Inr (Lit (the (model_execution_role_arn r)),
           add_construct ''Model Execution Role''
             (Role (FromRoleArn (the (model_execution_role_arn r))) [] []) st)"
    if "from_role_arn e (the (model_execution_role_arn r)) = Inr ()"
    using assms that by (simp add: resolve_role_def)
  have raise: "resolve_role e r st = Inl (Propagated x, st) \<and>
      outcome_error (init e r) = Some (Propagated x)"
    if "from_role_arn e (the (model_execution_role_arn r)) = Inl x" for x
    using assms that by (simp add: resolve_role_def init_rejected outcome_error_def)
  have nag: "nag_suppressions (outcome_state (init e r)) = []"
    using assms by (simp add: nag_outcome)
  have rest: "filter (\<lambda>(k, c). is_role c) (constructs (outcome_state (init e r))) =
        (if from_role_arn e (the (model_execution_role_arn r)) = Inr ()
         then [(''Model Execution Role'',
                Role (FromRoleArn (the (model_execution_role_arn r))) [] [])]
         else []) \<and>
      find_construct ''Model Bucket'' (outcome_state (init e r)) = None"
  proof (cases rule: init_outcomes[where e=e and r=r])
    case (rejected x)
    then show ?thesis
      by (simp add: outcome_state_def network_closed find_construct_def)
  next
    case passes: (early err st')
    from passes(1) assms have ok: "from_role_arn e (the (model_execution_role_arn r)) = Inr ()"
      by (simp add: role_import_passes_def)
    from resolve_package_Inl[OF passes(2)] passes(3) ok assms show ?thesis
      by (simp add: outcome_state_def find_construct_def role_stage_imported)
  next
    case passes: (duplicate p st4)
    from passes(1) assms have ok: "from_role_arn e (the (model_execution_role_arn r)) = Inr ()"
      by (simp add: role_import_passes_def)
    from passes(5) ok assms show ?thesis
      by (simp add: find_construct_def role_stage_imported)
  next
    case passes: (success p st4)
    from passes(1) assms have ok: "from_role_arn e (the (model_execution_role_arn r)) = Inr ()"
      by (simp add: role_import_passes_def)
    from passes(5) ok assms show ?thesis
      by (simp add: find_construct_def role_stage_imported)
  qed
  from step raise nag rest show ?thesis by blast
qed

text \<open>
  The request \<open>req_role\<close> brings a role ARN that \<open>env0\<close> accepts; the ARN of
  \<open>req_bad_role\<close> is rejected.
\<close>

theorem supplied_role_is_a_reference_witness:
  "truthy (model_execution_role_arn req_role) \<and>
   from_role_arn env0 (the (model_execution_role_arn req_role)) = Inr () \<and>
   filter (\<lambda>(k, c). is_role c) (constructs (outcome_state (init env0 req_role))) =
     [(''Model Execution Role'',
       Role (FromRoleArn ''arn:aws:iam::111122223333:role/service-role/endpoint-execution'') [] [])] \<and>
   find_construct ''Model Bucket'' (outcome_state (init env0 req_role)) = None \<and>
   nag_suppressions (outcome_state (init env0 req_role)) = [] \<and>
   truthy (model_execution_role_arn req_bad_role) \<and>
   from_role_arn env0 (the (model_execution_role_arn req_bad_role)) = Inl ''malformed ARN'' \<and>
   filter (\<lambda>(k, c). is_role c) (constructs (outcome_state (init env0 req_bad_role))) = [] \<and>
   outcome_error (init env0 req_bad_role) = Some (Propagated ''malformed ARN'')"
proof -
  have h: "truthy (model_execution_role_arn req_role)"
    and h': "truthy (model_execution_role_arn req_bad_role)"
    by (simp_all add: req_role_def req_bad_role_def truthy_def)
  have a: "the (model_execution_role_arn req_role) =
      ''arn:aws:iam::111122223333:role/service-role/endpoint-execution''"
    "the (model_execution_role_arn req_bad_role) = ''arn:role:X''"
    "from_role_arn env0 = role_arn_shape"
    by (simp_all add: req_role_def req_bad_role_def env0_def)
  note t = supplied_role_is_a_reference [OF h, of env0 new_stack]
    and t' = supplied_role_is_a_reference [OF h', of env0 new_stack]
  from h h' t t' show ?thesis
    by (simp add: a role_arn_shape_examples)
qed

text \<open>
  C4, as amended. For a request without an execution role: with the asset bucket
  supplied the bucket is imported, the role gets read access through the bucket's own
  \<^verbatim>\<open>grant_read\<close> and its policy has no unscoped bucket statement; with the bucket
  left out the policy gets the statement with \<^verbatim>\<open>s3:ListBucket\<close> and
  \<^verbatim>\<open>s3:GetObject\<close> on every resource. The code raises no warning on either path.
  The one audit annotation is the suppression of lines 192 to 202, and it does not tell
  the two paths apart: it is recorded exactly when the constructor runs to its end.
\<close>

theorem bucket_read_access:
  assumes "\<not> truthy (model_execution_role_arn r)"
  shows "find_construct ''Model Execution Role'' (outcome_state (init e r)) =
           Some (Role (ServicePrincipal ''sagemaker.amazonaws.com'')
                   (if truthy (model_artifacts_bucket_arn r)
                    then [baseline_statement, kms_statement e,
                          ecr_statement (if truthy (ecr_repo_arn r) then the (ecr_repo_arn r) else ''*'')]
                    else [baseline_statement, kms_statement e, unscoped_bucket_statement,
                          ecr_statement (if truthy (ecr_repo_arn r) then the (ecr_repo_arn r) else ''*'')])
                   (if truthy (model_artifacts_bucket_arn r)
                    then [GrantRead (the (model_artifacts_bucket_arn r))] else [])) \<and>
         find_construct ''Model Bucket'' (outcome_state (init e r)) =
           (if truthy (model_artifacts_bucket_arn r)
            then Some (Bucket (the (model_artifacts_bucket_arn r))) else None) \<and>
         nag_suppressions (outcome_state (init e r)) =
           (if outcome_error (init e r) = None
            then [(''Model Execution Role'', True,
                   [NagPackSuppression ''AwsSolutions-IAM5''
                      ''Model execution role requires some generic permissions.''])]
            else [])"
proof -
  have passes: "role_import_passes e r"
    using assms by (simp add: role_import_passes_def)
  have nag: "nag_suppressions (outcome_state (init e r)) =
      (if outcome_error (init e r) = None
       then [(''Model Execution Role'', True,
              [NagPackSuppression ''AwsSolutions-IAM5''
                 ''Model execution role requires some generic permissions.''])]
       else [])"
    using assms by (simp add: nag_outcome)
  have role: "find_construct ''Model Execution Role'' (snd (role_stage e r)) =
      Some (Role (ServicePrincipal ''sagemaker.amazonaws.com'')
              (if truthy (model_artifacts_bucket_arn r)
               then [baseline_statement, kms_statement e,
                     ecr_statement (if truthy (ecr_repo_arn r) then the (ecr_repo_arn r) else ''*'')]
               else [baseline_statement, kms_statement e, unscoped_bucket_statement,
                     ecr_statement (if truthy (ecr_repo_arn r) then the (ecr_repo_arn r) else ''*'')])
              (if truthy (model_artifacts_bucket_arn r)
               then [GrantRead (the (model_artifacts_bucket_arn r))] else []))"
    using assms
    by (cases "truthy (model_artifacts_bucket_arn r)")
       (simp_all add: role_stage_created find_construct_def split del: if_split)
  have bucket: "find_construct ''Model Bucket'' (snd (role_stage e r)) =
      (if truthy (model_artifacts_bucket_arn r)
       then Some (Bucket (the (model_artifacts_bucket_arn r))) else None)"
    using assms
    by (cases "truthy (model_artifacts_bucket_arn r)")
       (simp_all add: role_stage_created find_construct_def split del: if_split)
  from nag role bucket show ?thesis
    by (simp only: find_role_stage[OF passes])
qed

text \<open>
  The request \<open>req_group\<close> has no execution role and leaves the asset bucket out.
\<close>

theorem bucket_read_access_witness:
  "\<not> truthy (model_execution_role_arn req_group) \<and>
   \<not> truthy (model_artifacts_bucket_arn req_group) \<and>
   find_construct ''Model Execution Role'' (outcome_state (init env0 req_group)) =
     Some (Role (ServicePrincipal ''sagemaker.amazonaws.com'')
             [baseline_statement, kms_statement env0, unscoped_bucket_statement,
              ecr_statement ''*''] []) \<and>
   find_construct ''Model Bucket'' (outcome_state (init env0 req_group)) = None \<and>
   nag_suppressions (outcome_state (init env0 req_group)) =
     [(''Model Execution Role'', True,
       [NagPackSuppression ''AwsSolutions-IAM5''
          ''Model execution role requires some generic permissions.''])]"
proof -
  have h: "\<not> truthy (model_execution_role_arn req_group)"
    by (simp add: req_group_def req0_def truthy_def)
  have a: "\<not> truthy (model_artifacts_bucket_arn req_group)" "\<not> truthy (ecr_repo_arn req_group)"
    "outcome_error (init env0 req_group) = None"
    by (simp_all add: outcome_error_None_iff role_import_passes_def package_resolves_def req_group_def req0_def env0_def truthy_def)
  show ?thesis
    using h bucket_read_access [OF h, of env0] by (simp add: a)
qed

text \<open>
  C4 as stated does not hold: the request \<open>req_scoped\<close> supplies the asset bucket (and
  the image repository), the role gets the scoped grant, and the broad-permission
  annotation is recorded nevertheless.
\<close>

theorem scoped_grant_is_suppressed_too:
  "truthy (model_artifacts_bucket_arn req_scoped) \<and>
   outcome_error (init env0 req_scoped) = None \<and>
   find_construct ''Model Execution Role'' (outcome_state (init env0 req_scoped)) =
     Some (Role (ServicePrincipal ''sagemaker.amazonaws.com'')
             [baseline_statement, kms_statement env0,
              ecr_statement ''arn:aws:ecr:eu-west-1:111122223333:repository/models'']
             [GrantRead ''arn:aws:s3:::assets'']) \<and>
   nag_suppressions (outcome_state (init env0 req_scoped)) =
     [(''Model Execution Role'', True,
       [NagPackSuppression ''AwsSolutions-IAM5''
          ''Model execution role requires some generic permissions.''])]"
proof -
  have a: "\<not> truthy (model_execution_role_arn req_scoped)"
    "truthy (model_artifacts_bucket_arn req_scoped)" "truthy (ecr_repo_arn req_scoped)"
    "the (model_artifacts_bucket_arn req_scoped) = ''arn:aws:s3:::assets''"
    "the (ecr_repo_arn req_scoped) = ''arn:aws:ecr:eu-west-1:111122223333:repository/models''"
    by (simp_all add: req_scoped_def req0_def truthy_def)
  have ok: "outcome_error (init env0 req_scoped) = None"
    by (simp add: outcome_error_None_iff role_import_passes_def package_resolves_def
        req_scoped_def req0_def truthy_def)
  have passes: "role_import_passes env0 req_scoped"
    using a by (simp add: role_import_passes_def)
  have role: "find_construct ''Model Execution Role'' (outcome_state (init env0 req_scoped)) =
     Some (Role (ServicePrincipal ''sagemaker.amazonaws.com'')
             [baseline_statement, kms_statement env0,
              ecr_statement ''arn:aws:ecr:eu-west-1:111122223333:repository/models'']
             [GrantRead ''arn:aws:s3:::assets''])"
    using a
    by (simp only: find_role_stage[OF passes])
       (simp add: role_stage_created find_construct_def split del: if_split)
  from a ok role show ?thesis by (simp add: nag_outcome)
qed



text \<open>
  C6. The names have the shape id-suffix-timestamp, but the timestamp is not the time
  in UTC: \<^verbatim>\<open>datetime.now()\<close> reads the local wall clock and the UTC label is put
  on it afterwards. On the host above the code returns 20240301010000 while the UTC
  time is 20240301000000.
\<close>

theorem get_timestamp_is_local_time:
  "get_timestamp reading_cet = ''20240301010000'' \<and>
   utc_timestamp reading_cet = ''20240301000000''"
  by (simp add: get_timestamp_def utc_timestamp_def reading_cet_def civil_def
      datetime_now_def replace_tzinfo_def strftime_def digits4_def digits2_def digit_def)

text \<open>
  C7, as amended. A run that returns a stack has built its resources in the order
  security group, execution role (when the constructor creates it), model, key,
  endpoint configuration, endpoint. The model depends on the role it created and on the
  security group; the endpoint configuration on the key and, by
  \<^verbatim>\<open>add_dependency\<close>, on the model; the endpoint is given the configuration's
  name as a plain string and depends on the configuration by \<^verbatim>\<open>add_dependency\<close>.
  Every construct comes after the constructs it depends on.
\<close>

theorem resources_in_dependency_order:
  assumes "outcome_error (init e r) = None"
  shows "map (\<lambda>(k, c). (k, deps c))
           (filter (\<lambda>(k, c). is_resource c) (constructs (outcome_state (init e r)))) =
           (''Security Group'', [''VPC'']) #
           (if truthy (model_execution_role_arn r) then []
            else [(''Model Execution Role'', [])]) @
           [(''Model'',
             (if truthy (model_execution_role_arn r) then [] else [''Model Execution Role'']) @
             [''Security Group'']),
            (''Endpoint Key'', []),
            (''Endpoint Configuration'', [''Endpoint Key'', ''Model'']),
            (''Endpoint'', [''Endpoint Configuration''])] \<and>
         topological [] (constructs (outcome_state (init e r))) \<and>
         find_construct ''Endpoint'' (outcome_state (init e r)) =
           Some (CfnEndpoint (Lit (id' r @ ''-conf-'' @ get_timestamp (now e 1)))
                   [''Endpoint Configuration''])"
proof (cases rule: init_outcomes[where e=e and r=r])
  case (rejected x)
  with assms show ?thesis by (simp add: outcome_error_def)
next
  case (early err st')
  with assms show ?thesis by (simp add: outcome_error_def)
next
  case (duplicate p st4)
  with assms show ?thesis by simp
next
  case (success p st4)
  have ep: "find_construct ''Endpoint'' (outcome_state (init e r)) =
      Some (CfnEndpoint (Lit (id' r @ ''-conf-'' @ get_timestamp (now e 1)))
              [''Endpoint Configuration''])"
    by (simp add: find_construct_tail[OF success(5) role_stage_fields(7)[OF success(1)]])
  have rest: "map (\<lambda>(k, c). (k, deps c))
        (filter (\<lambda>(k, c). is_resource c) (constructs (outcome_state (init e r)))) =
        (''Security Group'', [''VPC'']) #
        (if truthy (model_execution_role_arn r) then []
         else [(''Model Execution Role'', [])]) @
        [(''Model'',
          (if truthy (model_execution_role_arn r) then [] else [''Model Execution Role'']) @
          [''Security Group'']),
         (''Endpoint Key'', []),
         (''Endpoint Configuration'', [''Endpoint Key'', ''Model'']),
         (''Endpoint'', [''Endpoint Configuration''])] \<and>
      topological [] (constructs (outcome_state (init e r)))"
    using success(1)
    by (cases "truthy (model_execution_role_arn r)";
        cases "truthy (model_artifacts_bucket_arn r)";
        simp add: success(5) role_import_passes_def role_stage_imported role_stage_created
          split del: if_split)
  from ep rest show ?thesis by simp
qed

text \<open>
  The request \<open>req_role\<close> brings its own role, with an ARN that \<open>env0\<close> accepts:
  five resources.
\<close>

theorem resources_in_dependency_order_witness:
  "outcome_error (init env0 req_role) = None \<and>
   map (\<lambda>(k, c). (k, deps c))
     (filter (\<lambda>(k, c). is_resource c) (constructs (outcome_state (init env0 req_role)))) =
     [(''Security Group'', [''VPC'']), (''Model'', [''Security Group'']),
      (''Endpoint Key'', []), (''Endpoint Configuration'', [''Endpoint Key'', ''Model'']),
      (''Endpoint'', [''Endpoint Configuration''])] \<and>
   topological [] (constructs (outcome_state (init env0 req_role))) \<and>
   find_construct ''Endpoint'' (outcome_state (init env0 req_role)) =
     Some (CfnEndpoint (Lit ''dep-conf-20240301000100'') [''Endpoint Configuration''])"
proof -
  have h: "outcome_error (init env0 req_role) = None"
    by (simp add: outcome_error_None_iff role_import_passes_def package_resolves_def
        req_role_def req0_def env0_def truthy_def role_arn_shape_examples)
  have a: "truthy (model_execution_role_arn req_role)" "id' req_role = ''dep''"
    by (simp_all add: req_role_def req0_def truthy_def)
  show ?thesis
    using h resources_in_dependency_order [OF h] by (simp add: a get_timestamp_env0)
qed

text \<open>
  C7 as stated does not hold: for \<open>req0\<close> the security group is built before the role
  and the model before the key, and the endpoint has an explicit dependency on the
  endpoint configuration besides the name.
\<close>

theorem security_group_is_built_before_role:
  "outcome_error (init env0 req0) = None \<and>
   resource_ids (outcome_state (init env0 req0)) =
     [''Security Group'', ''Model Execution Role'', ''Model'', ''Endpoint Key'',
      ''Endpoint Configuration'', ''Endpoint''] \<and>
   find_construct ''Endpoint'' (outcome_state (init env0 req0)) =
     Some (CfnEndpoint (Lit ''dep-conf-20240301000100'') [''Endpoint Configuration''])"
proof (cases rule: init_outcomes[where e=env0 and r=req0])
  case (rejected x)
  then show ?thesis by (simp add: req0_def truthy_def)
next
  case (early err st')
  from resolve_package_Inl[OF early(2)] show ?thesis
    by (simp add: req0_def truthy_def)
next
  case (duplicate p st4)
  then show ?thesis by (simp add: req0_def)
next
  case (success p st4)
  have a: "\<not> truthy (model_execution_role_arn req0)" "truthy (model_artifacts_bucket_arn req0)"
    "id' req0 = ''dep''"
    by (simp_all add: req0_def truthy_def)
  have "resource_ids (outcome_state (init env0 req0)) =
     [''Security Group'', ''Model Execution Role'', ''Model'', ''Endpoint Key'',
      ''Endpoint Configuration'', ''Endpoint'']"
    using a by (simp add: resource_ids_def success(5) role_stage_created split del: if_split)
  moreover have "find_construct ''Endpoint'' (outcome_state (init env0 req0)) =
     Some (CfnEndpoint (Lit ''dep-conf-20240301000100'') [''Endpoint Configuration''])"
    by (simp add: find_construct_tail[OF success(5) role_stage_fields(7)[OF success(1)]] a
        get_timestamp_env0)
  ultimately show ?thesis using success(4) by simp
qed

text \<open>
  C8, as amended. When the variant configuration has the key \<^verbatim>\<open>model_name\<close>, the
  call of line 171 raises for every model name, the constructor never returns a stack
  and no endpoint configuration is ever constructed. The error that leaves the
  constructor is this duplicate keyword exactly when the role step and the package
  resolution before it have passed; otherwise the constructor has already raised there.
\<close>

theorem duplicate_model_name_keyword:
  assumes "endpoint_config_prod_variant r ''model_name'' \<noteq> None"
  shows "ProductionVariantProperty model_name (endpoint_config_prod_variant r) =
           Inl (TypeError_multiple_values ''model_name'') \<and>
         outcome_error (init e r) \<noteq> None \<and>
         find_construct ''Endpoint Configuration'' (outcome_state (init e r)) = None \<and>
         (outcome_error (init e r) = Some (TypeError_multiple_values ''model_name'') \<longleftrightarrow>
            role_import_passes e r \<and> package_resolves e r)"
proof -
  have call: "ProductionVariantProperty model_name (endpoint_config_prod_variant r) =
      Inl (TypeError_multiple_values ''model_name'')"
    using assms by (simp add: ProductionVariantProperty_def)
  have fails: "outcome_error (init e r) \<noteq> None"
    using assms by (simp add: outcome_error_None_iff)
  have which: "outcome_error (init e r) = Some (TypeError_multiple_values ''model_name'') \<longleftrightarrow>
      role_import_passes e r \<and> package_resolves e r"
    using assms by (simp add: duplicate_error_iff)
  have none: "find_construct ''Endpoint Configuration'' (outcome_state (init e r)) = None"
  proof (cases rule: init_outcomes[where e=e and r=r])
    case (rejected x)
    then show ?thesis
      by (simp add: outcome_state_def network_closed find_construct_def)
  next
    case (early err st')
    from resolve_package_Inl[OF early(2)] role_stage_fields(6)[OF early(1)] early(3)
    show ?thesis
      by (simp add: outcome_state_def find_construct_def map_of_eq_None_iff)
  next
    case (duplicate p st4)
    then show ?thesis
      by (simp add: find_construct_tail[OF duplicate(5) role_stage_fields(6)[OF duplicate(1)]])
  next
    case (success p st4)
    with assms show ?thesis by simp
  qed
  from call fails none which show ?thesis by blast
qed

text \<open>
  The request \<open>req_dup\<close> has \<^verbatim>\<open>model_name\<close> among its variant keys, a package ARN
  and no role of its own.
\<close>

theorem duplicate_model_name_keyword_witness:
  "endpoint_config_prod_variant req_dup ''model_name'' \<noteq> None \<and>
   role_import_passes env0 req_dup \<and> package_resolves env0 req_dup \<and>
   ProductionVariantProperty ''dep-model-20240301000059'' (endpoint_config_prod_variant req_dup) =
     Inl (TypeError_multiple_values ''model_name'') \<and>
   find_construct ''Endpoint Configuration'' (outcome_state (init env0 req_dup)) = None \<and>
   outcome_error (init env0 req_dup) = Some (TypeError_multiple_values ''model_name'')"
proof -
  have h: "endpoint_config_prod_variant req_dup ''model_name'' \<noteq> None"
    by (simp add: req_dup_def)
  have a: "role_import_passes env0 req_dup" "package_resolves env0 req_dup"
    by (simp_all add: role_import_passes_def package_resolves_def req_dup_def req0_def
        truthy_def)
  show ?thesis
    using h a duplicate_model_name_keyword [OF h, of "''dep-model-20240301000059''" env0]
    by simp
qed

text \<open>
  C8 as stated does not hold: \<open>req_dup_missing\<close> has the key \<^verbatim>\<open>model_name\<close> in its
  variant configuration, and the constructor raises the \<^verbatim>\<open>ValueError\<close> of line 135.
  The clock has not been read: no name was generated and no production variant was
  assembled.
\<close>

theorem duplicate_key_without_package:
  "endpoint_config_prod_variant req_dup_missing ''model_name'' \<noteq> None \<and>
   outcome_error (init env0 req_dup_missing) =
     Some (ValueError ''Either model_package_arn or model_package_group_name is required'') \<and>
   clock_reads (outcome_state (init env0 req_dup_missing)) = 0"
proof -
  have a: "\<not> truthy (model_package_arn req_dup_missing)"
    "\<not> truthy (model_package_group_name req_dup_missing)"
    "role_import_passes env0 req_dup_missing"
    "endpoint_config_prod_variant req_dup_missing ''model_name'' \<noteq> None"
    by (simp_all add: req_dup_missing_def req_dup_def req0_def truthy_def
        role_import_passes_def)
  have "init env0 req_dup_missing =
      Inl (ValueError ''Either model_package_arn or model_package_group_name is required'',
           snd (role_stage env0 req_dup_missing))"
    using a by (simp add: init_closed resolve_package_def)
  then show ?thesis
    using a role_stage_fields(2)[OF a(3)]
    by (simp add: outcome_error_def outcome_state_def)
qed

text \<open>
  C9, as amended. When the constructor creates the execution role, the role is in the
  stack whatever the outcome, and the suppression of \<^verbatim>\<open>AwsSolutions-IAM5\<close> is
  recorded on it, with \<^verbatim>\<open>apply_to_children\<close>, exactly when the constructor runs to
  its end. The asset bucket plays no part in it: with the bucket supplied the role has
  the scoped read grant, its policy has no unscoped bucket statement, and a run that
  completes records the suppression all the same.
\<close>

theorem synthesized_role_suppressed_on_completion:
  assumes "\<not> truthy (model_execution_role_arn r)"
  shows "nag_suppressions (outcome_state (init e r)) =
           (if outcome_error (init e r) = None
            then [(''Model Execution Role'', True,
                   [NagPackSuppression ''AwsSolutions-IAM5''
                      ''Model execution role requires some generic permissions.''])]
            else []) \<and>
         (\<exists>policy grants.
            find_construct ''Model Execution Role'' (outcome_state (init e r)) =
              Some (Role (ServicePrincipal ''sagemaker.amazonaws.com'') policy grants)) \<and>
         (truthy (model_artifacts_bucket_arn r) \<longrightarrow>
            find_construct ''Model Execution Role'' (outcome_state (init e r)) =
              Some (Role (ServicePrincipal ''sagemaker.amazonaws.com'')
                      [baseline_statement, kms_statement e,
                       ecr_statement (if truthy (ecr_repo_arn r) then the (ecr_repo_arn r) else ''*'')]
                      [GrantRead (the (model_artifacts_bucket_arn r))]) \<and>
            unscoped_bucket_statement \<notin>
              set [baseline_statement, kms_statement e,
                   ecr_statement (if truthy (ecr_repo_arn r) then the (ecr_repo_arn r) else ''*'')])"
proof -
  have passes: "role_import_passes e r"
    using assms by (simp add: role_import_passes_def)
  have nag: "nag_suppressions (outcome_state (init e r)) =
      (if outcome_error (init e r) = None
       then [(''Model Execution Role'', True,
              [NagPackSuppression ''AwsSolutions-IAM5''
                 ''Model execution role requires some generic permissions.''])]
       else [])"
    using assms by (simp add: nag_outcome)
  have some: "\<exists>policy grants.
      find_construct ''Model Execution Role'' (outcome_state (init e r)) =
        Some (Role (ServicePrincipal ''sagemaker.amazonaws.com'') policy grants)"
    using assms
    by (simp only: find_role_stage[OF passes])
       (cases "truthy (model_artifacts_bucket_arn r)";
        simp add: role_stage_created find_construct_def split del: if_split)
  have role: "find_construct ''Model Execution Role'' (outcome_state (init e r)) =
      Some (Role (ServicePrincipal ''sagemaker.amazonaws.com'')
              [baseline_statement, kms_statement e,
               ecr_statement (if truthy (ecr_repo_arn r) then the (ecr_repo_arn r) else ''*'')]
              [GrantRead (the (model_artifacts_bucket_arn r))])"
    if "truthy (model_artifacts_bucket_arn r)"
    using assms that
    by (simp only: find_role_stage[OF passes])
       (simp add: role_stage_created find_construct_def split del: if_split)
  have no: "unscoped_bucket_statement \<notin>
      set [baseline_statement, kms_statement e, ecr_statement x]" for x
    by (simp add: unscoped_bucket_statement_def baseline_statement_def kms_statement_def
        ecr_statement_def)
  from nag some role no show ?thesis by blast
qed

text \<open>
  The request \<open>req0\<close> has no execution role, supplies the asset bucket and runs to the
  end.
\<close>

theorem synthesized_role_suppressed_on_completion_witness:
  "\<not> truthy (model_execution_role_arn req0) \<and> outcome_error (init env0 req0) = None \<and>
   truthy (model_artifacts_bucket_arn req0) \<and>
   nag_suppressions (outcome_state (init env0 req0)) =
     [(''Model Execution Role'', True,
       [NagPackSuppression ''AwsSolutions-IAM5''
          ''Model execution role requires some generic permissions.''])] \<and>
   find_construct ''Model Execution Role'' (outcome_state (init env0 req0)) =
     Some (Role (ServicePrincipal ''sagemaker.amazonaws.com'')
             [baseline_statement, kms_statement env0, ecr_statement ''*'']
             [GrantRead ''arn:aws:s3:::assets''])"
proof -
  have h: "\<not> truthy (model_execution_role_arn req0)"
    by (simp add: req0_def truthy_def)
  have a: "truthy (model_artifacts_bucket_arn req0)" "\<not> truthy (ecr_repo_arn req0)"
    "the (model_artifacts_bucket_arn req0) = ''arn:aws:s3:::assets''"
    by (simp_all add: req0_def truthy_def)
  note t = synthesized_role_suppressed_on_completion [OF h, of env0]
  from h a t show ?thesis
    by (simp add: req0_succeeds)
qed

text \<open>
  C9 as stated does not hold: for \<open>req_missing\<close> the constructor has created the
  execution role when it raises at line 135, and no suppression is recorded.
\<close>

theorem synthesized_role_without_suppression:
  "\<not> truthy (model_execution_role_arn req_missing) \<and>
   find_construct ''Model Execution Role'' (outcome_state (init env0 req_missing)) =
     Some (Role (ServicePrincipal ''sagemaker.amazonaws.com'')
             [baseline_statement, kms_statement env0, ecr_statement ''*'']
             [GrantRead ''arn:aws:s3:::assets'']) \<and>
   outcome_error (init env0 req_missing) =
     Some (ValueError ''Either model_package_arn or model_package_group_name is required'') \<and>
   nag_suppressions (outcome_state (init env0 req_missing)) = []"
proof -
  have a: "\<not> truthy (model_package_arn req_missing)"
    "\<not> truthy (model_package_group_name req_missing)"
    "\<not> truthy (model_execution_role_arn req_missing)"
    "truthy (model_artifacts_bucket_arn req_missing)"
    "\<not> truthy (ecr_repo_arn req_missing)"
    "the (model_artifacts_bucket_arn req_missing) = ''arn:aws:s3:::assets''"
    by (simp_all add: req_missing_def req0_def truthy_def)
  have passes: "role_import_passes env0 req_missing"
    using a by (simp add: role_import_passes_def)
  have err: "outcome_error (init env0 req_missing) =
      Some (ValueError ''Either model_package_arn or model_package_group_name is required'')"
    using a passes by (simp add: init_closed resolve_package_def outcome_error_def)
  have role: "find_construct ''Model Execution Role'' (outcome_state (init env0 req_missing)) =
     Some (Role (ServicePrincipal ''sagemaker.amazonaws.com'')
             [baseline_statement, kms_statement env0, ecr_statement ''*'']
             [GrantRead ''arn:aws:s3:::assets''])"
    using a
    by (simp only: find_role_stage[OF passes])
       (simp add: role_stage_created find_construct_def split del: if_split)
  from a err role show ?thesis by (simp add: nag_outcome)
qed

text \<open>
  C10, as amended. A run that gets past the role step and the package resolution has
  exactly one key construct, and it is the same for every request: rotation enabled,
  encrypt and decrypt granted to the account root principal. A run that raises before
  has none. The endpoint configuration exists exactly when the constructor runs to its
  end, and it refers to the id of that key.
\<close>

theorem one_encryption_key:
  "filter (\<lambda>(k, c). is_key c) (constructs (outcome_state (init e r))) =
     (if role_import_passes e r \<and> package_resolves e r
      then [(''Endpoint Key'',
             Key ''Key used for encryption of data in Amazon SageMaker Endpoint'' True
               [GrantEncryptDecrypt ''AccountRootPrincipal''])]
      else []) \<and>
   find_construct ''Endpoint Configuration'' (outcome_state (init e r)) =
     (if outcome_error (init e r) = None
      then Some (CfnEndpointConfig (id' r @ ''-conf-'' @ get_timestamp (now e 1))
                   (Tok ''Endpoint Key'' ''KeyId'')
                   [ProductionVariant (id' r @ ''-model-'' @ get_timestamp (now e 0))
                      (endpoint_config_prod_variant r)]
                   [''Model''])
      else None)"
  by (rule key_and_config)

text \<open>The request \<open>req_group\<close> on \<open>env0\<close> runs to the end.\<close>

theorem one_encryption_key_witness:
  "role_import_passes env0 req_group \<and> package_resolves env0 req_group \<and>
   outcome_error (init env0 req_group) = None \<and>
   filter (\<lambda>(k, c). is_key c) (constructs (outcome_state (init env0 req_group))) =
     [(''Endpoint Key'',
       Key ''Key used for encryption of data in Amazon SageMaker Endpoint'' True
         [GrantEncryptDecrypt ''AccountRootPrincipal''])] \<and>
   find_construct ''Endpoint Configuration'' (outcome_state (init env0 req_group)) =
     Some (CfnEndpointConfig ''dep-conf-20240301000100'' (Tok ''Endpoint Key'' ''KeyId'')
             [ProductionVariant ''dep-model-20240301000059'' [''variant_name'' \<mapsto> ''AllTraffic'']]
             [''Model''])"
proof -
  have p: "role_import_passes env0 req_group" "package_resolves env0 req_group"
    by (simp_all add: role_import_passes_def package_resolves_def req_group_def req0_def
        env0_def truthy_def)
  have h: "outcome_error (init env0 req_group) = None"
    using p by (simp add: outcome_error_None_iff req_group_def req0_def)
  have a: "id' req_group = ''dep''"
    "endpoint_config_prod_variant req_group = [''variant_name'' \<mapsto> ''AllTraffic'']"
    by (simp_all add: req_group_def req0_def)
  note t = one_encryption_key [of env0 req_group]
  from p h t show ?thesis
    by (simp add: a get_timestamp_env0)
qed

text \<open>
  C10 as stated does not hold: for \<open>req_missing\<close> the constructor raises at line 135
  and the stack has no key; for \<open>req_dup\<close> it raises at line 171, the key exists and
  there is no endpoint configuration to refer to it.
\<close>

theorem no_key_without_package:
  "outcome_error (init env0 req_missing) =
     Some (ValueError ''Either model_package_arn or model_package_group_name is required'') \<and>
   filter (\<lambda>(k, c). is_key c) (constructs (outcome_state (init env0 req_missing))) = [] \<and>
   outcome_error (init env0 req_dup) = Some (TypeError_multiple_values ''model_name'') \<and>
   filter (\<lambda>(k, c). is_key c) (constructs (outcome_state (init env0 req_dup))) =
     [(''Endpoint Key'',
       Key ''Key used for encryption of data in Amazon SageMaker Endpoint'' True
         [GrantEncryptDecrypt ''AccountRootPrincipal''])] \<and>
   find_construct ''Endpoint Configuration'' (outcome_state (init env0 req_dup)) = None"
proof -
  have m: "outcome_error (init env0 req_missing) =
      Some (ValueError ''Either model_package_arn or model_package_group_name is required'')"
    "\<not> package_resolves env0 req_missing"
    by (simp_all add: init_closed resolve_package_def outcome_error_def role_import_passes_def
        package_resolves_def req_missing_def req0_def truthy_def)
  have d: "outcome_error (init env0 req_dup) = Some (TypeError_multiple_values ''model_name'')"
    "role_import_passes env0 req_dup" "package_resolves env0 req_dup"
    by (simp_all add: duplicate_error_iff role_import_passes_def package_resolves_def
        req_dup_def req0_def truthy_def)
  from m d key_and_config [of env0 req_missing] key_and_config [of env0 req_dup]
  show ?thesis by simp
qed

end
